theory Spec2Isabelle
  imports Complex_Main
begin

section \<open>MassMatrix3: mass and symmetric 3x3 moment of inertia\<close>

text \<open>
  The class \<^verbatim>\<open>MassMatrix3<T>\<close> of \<^verbatim>\<open>include/ignition/math/MassMatrix3.hh\<close> is a
  template over the scalar type \<^verbatim>\<open>T\<close>. Here \<^verbatim>\<open>T\<close> is the type of real numbers:
  arithmetic is exact, there is no rounding, no overflow and no NaN. Every statement
  below is about the algorithm over the reals.
\<close>

subsection \<open>Scalars and vectors used by the class\<close>

text \<open>
  Modelled from the spec: the helpers \<^verbatim>\<open>equal\<close>, \<^verbatim>\<open>clamp\<close> and \<^verbatim>\<open>sort3\<close> of
  \<^verbatim>\<open>Helpers.hh\<close> (tolerance equality, clamping and three-way sorting) are not
  part of the sources at hand.
\<close>

definition equal :: "real \<Rightarrow> real \<Rightarrow> real \<Rightarrow> bool" where
  "equal a b epsilon = (\<bar>a - b\<bar> \<le> epsilon)"

definition clamp :: "real \<Rightarrow> real \<Rightarrow> real \<Rightarrow> real" where
  "clamp v lo hi = max (min v hi) lo"

definition sort2 :: "real \<times> real \<Rightarrow> real \<times> real" where
  "sort2 ab = (case ab of (a, b) \<Rightarrow> if b < a then (b, a) else (a, b))"

definition sort3 :: "real \<times> real \<times> real \<Rightarrow> real \<times> real \<times> real" where
  "sort3 abc =
     (case abc of (a, b, c) \<Rightarrow>
        (case sort2 (a, b) of (a1, b1) \<Rightarrow>
           (case sort2 (b1, c) of (b2, c2) \<Rightarrow>
              (case sort2 (a1, b2) of (a3, b3) \<Rightarrow> (a3, b3, c2)))))"

text \<open>
  Modelled from the spec: \<^verbatim>\<open>Vector3<T>\<close> (\<^verbatim>\<open>Vector3.hh\<close>), a 3-component vector
  with indexed access, maximum, sum, scaling and equality within a tolerance, and
  \<^verbatim>\<open>Vector2<T>\<close> (\<^verbatim>\<open>Vector2.hh\<close>) with its squared length.
\<close>

datatype Vector3 = Vector3 (vx: real) (vy: real) (vz: real)

definition Vector3_Zero :: Vector3 where
  "Vector3_Zero = Vector3 0 0 0"

definition Vector3_One :: Vector3 where
  "Vector3_One = Vector3 1 1 1"

definition Vector3_at :: "Vector3 \<Rightarrow> int \<Rightarrow> real" where
  "Vector3_at v i = (if i = 0 then vx v else if i = 1 then vy v else vz v)"

definition Vector3_Max :: "Vector3 \<Rightarrow> real" where
  "Vector3_Max v = max (max (vx v) (vy v)) (vz v)"

definition Vector3_Sum :: "Vector3 \<Rightarrow> real" where
  "Vector3_Sum v = vx v + vy v + vz v"

definition Vector3_scale :: "real \<Rightarrow> Vector3 \<Rightarrow> Vector3" where
  "Vector3_scale k v = Vector3 (k * vx v) (k * vy v) (k * vz v)"

definition Vector3_Equal :: "Vector3 \<Rightarrow> Vector3 \<Rightarrow> real \<Rightarrow> bool" where
  "Vector3_Equal u v tol =
     (equal (vx u) (vx v) tol \<and> equal (vy u) (vy v) tol \<and> equal (vz u) (vz v) tol)"

datatype Vector2 = Vector2 (v2x: real) (v2y: real)

definition Vector2_SquaredLength :: "Vector2 \<Rightarrow> real" where
  "Vector2_SquaredLength v = v2x v * v2x v + v2y v * v2y v"

definition Vector2_mul :: "Vector2 \<Rightarrow> Vector2 \<Rightarrow> Vector2" where
  "Vector2_mul u v = Vector2 (v2x u * v2x v) (v2y u * v2y v)"

definition Vector2_neg :: "Vector2 \<Rightarrow> Vector2" where
  "Vector2_neg v = Vector2 (- v2x v) (- v2y v)"

text \<open>
  Modelled from the spec: \<^verbatim>\<open>Matrix3<T>\<close> (\<^verbatim>\<open>Matrix3.hh\<close>), a 3x3 matrix given
  row by row, with indexed access and determinant.
\<close>

datatype Matrix3 = Matrix3 real real real real real real real real real

fun Matrix3_at :: "Matrix3 \<Rightarrow> nat \<Rightarrow> nat \<Rightarrow> real" where
  "Matrix3_at (Matrix3 a00 a01 a02 a10 a11 a12 a20 a21 a22) i j =
     (if i = 0 then (if j = 0 then a00 else if j = 1 then a01 else a02)
      else if i = 1 then (if j = 0 then a10 else if j = 1 then a11 else a12)
      else (if j = 0 then a20 else if j = 1 then a21 else a22))"

fun Determinant :: "Matrix3 \<Rightarrow> real" where
  "Determinant (Matrix3 a00 a01 a02 a10 a11 a12 a20 a21 a22) =
     a00 * (a11 * a22 - a12 * a21)
     - a01 * (a10 * a22 - a12 * a20)
     + a02 * (a10 * a21 - a11 * a20)"

subsection \<open>The state and its accessors\<close>

record MassMatrix3 =
  mass :: real
  Ixxyyzz :: Vector3
  Ixyxzyz :: Vector3

text \<open>The default constructor: mass 0 and both vectors zero.\<close>

definition MassMatrix3_default :: MassMatrix3 where
  "MassMatrix3_default = \<lparr>mass = 0, Ixxyyzz = Vector3_Zero, Ixyxzyz = Vector3_Zero\<rparr>"

definition Mass :: "MassMatrix3 \<Rightarrow> real" where
  "Mass m = mass m"

definition DiagonalMoments :: "MassMatrix3 \<Rightarrow> Vector3" where
  "DiagonalMoments m = Ixxyyzz m"

definition OffDiagonalMoments :: "MassMatrix3 \<Rightarrow> Vector3" where
  "OffDiagonalMoments m = Ixyxzyz m"

definition IXX :: "MassMatrix3 \<Rightarrow> real" where
  "IXX m = Vector3_at (Ixxyyzz m) 0"

definition IYY :: "MassMatrix3 \<Rightarrow> real" where
  "IYY m = Vector3_at (Ixxyyzz m) 1"

definition IZZ :: "MassMatrix3 \<Rightarrow> real" where
  "IZZ m = Vector3_at (Ixxyyzz m) 2"

definition IXY :: "MassMatrix3 \<Rightarrow> real" where
  "IXY m = Vector3_at (Ixyxzyz m) 0"

definition IXZ :: "MassMatrix3 \<Rightarrow> real" where
  "IXZ m = Vector3_at (Ixyxzyz m) 1"

definition IYZ :: "MassMatrix3 \<Rightarrow> real" where
  "IYZ m = Vector3_at (Ixyxzyz m) 2"

text \<open>\<^verbatim>\<open>MOI()\<close>: the moments of inertia as a symmetric matrix.\<close>

definition MOI :: "MassMatrix3 \<Rightarrow> Matrix3" where
  "MOI m =
     Matrix3
       (Vector3_at (Ixxyyzz m) 0) (Vector3_at (Ixyxzyz m) 0) (Vector3_at (Ixyxzyz m) 1)
       (Vector3_at (Ixyxzyz m) 0) (Vector3_at (Ixxyyzz m) 1) (Vector3_at (Ixyxzyz m) 2)
       (Vector3_at (Ixyxzyz m) 1) (Vector3_at (Ixyxzyz m) 2) (Vector3_at (Ixxyyzz m) 2)"

subsection \<open>Validity\<close>

definition IsPositive :: "MassMatrix3 \<Rightarrow> bool" where
  "IsPositive m =
     (mass m > 0 \<and> IXX m > 0 \<and> IXX m * IYY m - (IXY m)\<^sup>2 > 0 \<and> Determinant (MOI m) > 0)"

definition ValidMoments :: "Vector3 \<Rightarrow> bool" where
  "ValidMoments moments =
     (Vector3_at moments 0 > 0 \<and>
      Vector3_at moments 1 > 0 \<and>
      Vector3_at moments 2 > 0 \<and>
      Vector3_at moments 0 + Vector3_at moments 1 > Vector3_at moments 2 \<and>
      Vector3_at moments 1 + Vector3_at moments 2 > Vector3_at moments 0 \<and>
      Vector3_at moments 2 + Vector3_at moments 0 > Vector3_at moments 1)"

subsection \<open>Principal moments\<close>

text \<open>
  \<^verbatim>\<open>PrincipalMoments(_tol)\<close>. The library calls \<^verbatim>\<open>std::pow\<close>, \<^verbatim>\<open>sqrt\<close>, \<^verbatim>\<open>acos\<close>
  and \<^verbatim>\<open>cos\<close> are the real functions; \<^verbatim>\<open>std::pow(p, 1.5)\<close> is \<open>p powr (3/2)\<close>,
  and \<open>p\<close> is a sum of squares, hence never negative.
\<close>

definition PrincipalMoments :: "real \<Rightarrow> MassMatrix3 \<Rightarrow> Vector3" where
  "PrincipalMoments tol0 m =
     (let tol = tol0 * Vector3_Max (Ixxyyzz m) in
      if Vector3_Equal (Ixyxzyz m) Vector3_Zero tol then Ixxyyzz m
      else
        let Id = Ixxyyzz m;
            Ip = Ixyxzyz m;
            b = Vector3_Sum Id;
            c = Vector3_at Id 0 * Vector3_at Id 1 - (Vector3_at Ip 0)\<^sup>2
              + Vector3_at Id 0 * Vector3_at Id 2 - (Vector3_at Ip 1)\<^sup>2
              + Vector3_at Id 1 * Vector3_at Id 2 - (Vector3_at Ip 2)\<^sup>2;
            d = Vector3_at Id 0 * (Vector3_at Ip 2)\<^sup>2
              + Vector3_at Id 1 * (Vector3_at Ip 1)\<^sup>2
              + Vector3_at Id 2 * (Vector3_at Ip 0)\<^sup>2
              - Vector3_at Id 0 * Vector3_at Id 1 * Vector3_at Id 2
              - 2 * Vector3_at Ip 0 * Vector3_at Ip 1 * Vector3_at Ip 2;
            p = b\<^sup>2 - 3 * c
        in
          if p < tol\<^sup>2 then Vector3_scale (b / 3) Vector3_One
          else
            let q = 2 * b ^ 3 - 9 * b * c - 27 * d;
                delta = arccos (clamp (0.5 * q / (p powr (3/2))) (- 1) 1);
                moment0 = (b + 2 * sqrt p * cos (delta / 3)) / 3;
                moment1 = (b + 2 * sqrt p * cos ((delta + 2 * pi) / 3)) / 3;
                moment2 = (b + 2 * sqrt p * cos ((delta - 2 * pi) / 3)) / 3
            in case sort3 (moment0, moment1, moment2) of
                 (s0, s1, s2) \<Rightarrow> Vector3 s0 s1 s2)"

definition IsValid :: "MassMatrix3 \<Rightarrow> bool" where
  "IsValid m = (IsPositive m \<and> ValidMoments (PrincipalMoments (1 / 10 ^ 6) m))"

subsection \<open>Setters\<close>

text \<open>
  Each setter mutates the object and returns \<^verbatim>\<open>IsValid()\<close> of the result: the
  model returns the answer together with the new state.
\<close>

definition Mass_set :: "real \<Rightarrow> MassMatrix3 \<Rightarrow> bool \<times> MassMatrix3" where
  "Mass_set v m = (let m' = m\<lparr>mass := v\<rparr> in (IsValid m', m'))"

definition InertiaMatrix :: "real \<Rightarrow> real \<Rightarrow> real \<Rightarrow> real \<Rightarrow> real \<Rightarrow> real \<Rightarrow> MassMatrix3
    \<Rightarrow> bool \<times> MassMatrix3" where
  "InertiaMatrix ixx iyy izz ixy ixz iyz m =
     (let m' = m\<lparr>Ixxyyzz := Vector3 ixx iyy izz, Ixyxzyz := Vector3 ixy ixz iyz\<rparr>
      in (IsValid m', m'))"

definition DiagonalMoments_set :: "Vector3 \<Rightarrow> MassMatrix3 \<Rightarrow> bool \<times> MassMatrix3" where
  "DiagonalMoments_set v m = (let m' = m\<lparr>Ixxyyzz := v\<rparr> in (IsValid m', m'))"

definition OffDiagonalMoments_set :: "Vector3 \<Rightarrow> MassMatrix3 \<Rightarrow> bool \<times> MassMatrix3" where
  "OffDiagonalMoments_set v m = (let m' = m\<lparr>Ixyxzyz := v\<rparr> in (IsValid m', m'))"

definition IXX_set :: "real \<Rightarrow> MassMatrix3 \<Rightarrow> bool \<times> MassMatrix3" where
  "IXX_set v m =
     (let m' = m\<lparr>Ixxyyzz := Vector3 v (vy (Ixxyyzz m)) (vz (Ixxyyzz m))\<rparr> in (IsValid m', m'))"

definition IYY_set :: "real \<Rightarrow> MassMatrix3 \<Rightarrow> bool \<times> MassMatrix3" where
  "IYY_set v m =
     (let m' = m\<lparr>Ixxyyzz := Vector3 (vx (Ixxyyzz m)) v (vz (Ixxyyzz m))\<rparr> in (IsValid m', m'))"

definition IZZ_set :: "real \<Rightarrow> MassMatrix3 \<Rightarrow> bool \<times> MassMatrix3" where
  "IZZ_set v m =
     (let m' = m\<lparr>Ixxyyzz := Vector3 (vx (Ixxyyzz m)) (vy (Ixxyyzz m)) v\<rparr> in (IsValid m', m'))"

definition IXY_set :: "real \<Rightarrow> MassMatrix3 \<Rightarrow> bool \<times> MassMatrix3" where
  "IXY_set v m =
     (let m' = m\<lparr>Ixyxzyz := Vector3 v (vy (Ixyxzyz m)) (vz (Ixyxzyz m))\<rparr> in (IsValid m', m'))"

definition IXZ_set :: "real \<Rightarrow> MassMatrix3 \<Rightarrow> bool \<times> MassMatrix3" where
  "IXZ_set v m =
     (let m' = m\<lparr>Ixyxzyz := Vector3 (vx (Ixyxzyz m)) v (vz (Ixyxzyz m))\<rparr> in (IsValid m', m'))"

definition IYZ_set :: "real \<Rightarrow> MassMatrix3 \<Rightarrow> bool \<times> MassMatrix3" where
  "IYZ_set v m =
     (let m' = m\<lparr>Ixyxzyz := Vector3 (vx (Ixyxzyz m)) (vy (Ixyxzyz m)) v\<rparr> in (IsValid m', m'))"

text \<open>\<^verbatim>\<open>MOI(_moi)\<close>: the symmetric part of the matrix is stored.\<close>

definition MOI_set :: "Matrix3 \<Rightarrow> MassMatrix3 \<Rightarrow> bool \<times> MassMatrix3" where
  "MOI_set moi m =
     (let m' = m\<lparr>Ixxyyzz :=
                    Vector3 (Matrix3_at moi 0 0) (Matrix3_at moi 1 1) (Matrix3_at moi 2 2),
                  Ixyxzyz :=
                    Vector3 (0.5 * (Matrix3_at moi 0 1 + Matrix3_at moi 1 0))
                            (0.5 * (Matrix3_at moi 0 2 + Matrix3_at moi 2 0))
                            (0.5 * (Matrix3_at moi 1 2 + Matrix3_at moi 2 1))\<rparr>
      in (IsValid m', m'))"

subsection \<open>The non-diagonal path in the words of the specification\<close>

text \<open>
  The specification describes the non-diagonal path of \<^verbatim>\<open>PrincipalMoments\<close> from
  three invariants \<open>b\<close>, \<open>c\<close>, \<open>d\<close> of the characteristic polynomial and the scaled
  tolerance: with \<open>p = b\<^sup>2 - 3c\<close>, the result is \<open>(b/3, b/3, b/3)\<close> when
  \<open>p < scaledTol\<^sup>2\<close>, and otherwise the three roots
  \<open>(b + 2 sqrt p cos ((delta + k 2 pi) / 3)) / 3\<close> for \<open>k = 0, 1, -1\<close> in ascending
  order, where \<open>q = 2b\<^sup>3 - 9bc - 27d\<close> and \<open>delta = acos (clamp (q / (2 p^1.5)))\<close>.
  \<open>cubic_moments\<close> is that description, with the ascending order written with
  \<open>min\<close> and \<open>max\<close>; it is compared with the code below.
\<close>

definition cubic_root :: "real \<Rightarrow> real \<Rightarrow> real \<Rightarrow> real \<Rightarrow> real" where
  "cubic_root b p delta k = (b + 2 * sqrt p * cos ((delta + k * (2 * pi)) / 3)) / 3"

definition cubic_moments :: "real \<Rightarrow> real \<Rightarrow> real \<Rightarrow> real \<Rightarrow> Vector3" where
  "cubic_moments b c d scaledTol =
     (let p = b\<^sup>2 - 3 * c in
      if p < scaledTol\<^sup>2 then Vector3 (b / 3) (b / 3) (b / 3)
      else
        let q = 2 * b ^ 3 - 9 * b * c - 27 * d;
            delta = arccos (clamp (q / (2 * p powr (3/2))) (- 1) 1);
            r0 = cubic_root b p delta 0;
            r1 = cubic_root b p delta 1;
            r2 = cubic_root b p delta (- 1)
        in Vector3 (min (min r0 r1) r2)
                   (max (min r0 r1) (min (max r0 r1) r2))
                   (max (max r0 r1) r2))"

text \<open>The trace and the sum of the three 2x2 principal minors of \<^verbatim>\<open>MOI()\<close>.\<close>

definition trace_MOI :: "MassMatrix3 \<Rightarrow> real" where
  "trace_MOI m = IXX m + IYY m + IZZ m"

definition minors_MOI :: "MassMatrix3 \<Rightarrow> real" where
  "minors_MOI m =
     (IXX m * IYY m - (IXY m)\<^sup>2) + (IXX m * IZZ m - (IXZ m)\<^sup>2) + (IYY m * IZZ m - (IYZ m)\<^sup>2)"

text \<open>
  The specification's reading of the whole function: the diagonal fast path, and
  otherwise the cubic with \<open>d\<close> the determinant of the matrix.
\<close>

definition PrincipalMoments_spec :: "real \<Rightarrow> MassMatrix3 \<Rightarrow> Vector3" where
  "PrincipalMoments_spec tol0 m =
     (let scaledTol = tol0 * Vector3_Max (Ixxyyzz m) in
      if Vector3_Equal (Ixyxzyz m) Vector3_Zero scaledTol then Ixxyyzz m
      else cubic_moments (trace_MOI m) (minors_MOI m) (Determinant (MOI m)) scaledTol)"

subsection \<open>Angles and quaternions\<close>

text \<open>
  The C library's \<^verbatim>\<open>atan2(y, x)\<close> over the reals: the angle of the point \<open>(x, y)\<close>
  in \<open>(-pi, pi]\<close>, and 0 at the origin.
\<close>

definition atan2 :: "real \<Rightarrow> real \<Rightarrow> real" where
  "atan2 y x =
     (if x > 0 then arctan (y / x)
      else if x < 0 then (if y \<ge> 0 then arctan (y / x) + pi else arctan (y / x) - pi)
      else if y > 0 then pi / 2
      else if y < 0 then - (pi / 2)
      else 0)"

text \<open>
  Modelled from the spec: \<^verbatim>\<open>math::Angle\<close> (\<^verbatim>\<open>Angle.hh\<close>), a scalar angle with a
  radian accessor and a normalisation into \<open>(-pi, pi]\<close>. \<open>Angle_Normalize x\<close> is the
  value \<^verbatim>\<open>Radian()\<close> returns after \<^verbatim>\<open>Normalize()\<close> on \<^verbatim>\<open>Angle(x)\<close>.
\<close>

definition Angle_Normalize :: "real \<Rightarrow> real" where
  "Angle_Normalize x = atan2 (sin x) (cos x)"

text \<open>
  Modelled from the spec: \<^verbatim>\<open>Quaternion<T>\<close> (\<^verbatim>\<open>Quaternion.hh\<close>) holds the four
  components \<open>w, x, y, z\<close>; its default constructor is the identity orientation.
  The constructor from three angles, the inverse and the product are not described
  further by the specification: they are parameters of the model, collected in
  \<open>QuaternionOps\<close>.
\<close>

datatype Quaternion = Quaternion (qw: real) (qx: real) (qy: real) (qz: real)

definition Quaternion_Identity :: Quaternion where
  "Quaternion_Identity = Quaternion 1 0 0 0"

definition Quaternion_SquaredNorm :: "Quaternion \<Rightarrow> real" where
  "Quaternion_SquaredNorm q = qw q * qw q + qx q * qx q + qy q * qy q + qz q * qz q"

record QuaternionOps =
  Euler :: "real \<Rightarrow> real \<Rightarrow> real \<Rightarrow> Quaternion"
  Inverse :: "Quaternion \<Rightarrow> Quaternion"
  Multiply :: "Quaternion \<Rightarrow> Quaternion \<Rightarrow> Quaternion"

text \<open>
  Modelled from the spec: a quaternion is constructible from three rotation angles,
  composable by multiplication and invertible (\<^verbatim>\<open>Quaternion.hh\<close> is not part of the
  sources at hand). \<open>Quaternion_ops\<close> is the usual reading of these three operations:
  the unit quaternion of roll, pitch and yaw (the rotation \<open>Rz(yaw) Ry(pitch) Rx(roll)\<close>),
  the inverse (conjugate over squared norm, the identity for a quaternion of norm zero)
  and the Hamilton product. It is the instance used in every closed example.
\<close>

definition Quaternion_Euler :: "real \<Rightarrow> real \<Rightarrow> real \<Rightarrow> Quaternion" where
  "Quaternion_Euler roll pitch yaw =
     (let phi = roll / 2; the = pitch / 2; psi = yaw / 2 in
      Quaternion
        (cos phi * cos the * cos psi + sin phi * sin the * sin psi)
        (sin phi * cos the * cos psi - cos phi * sin the * sin psi)
        (cos phi * sin the * cos psi + sin phi * cos the * sin psi)
        (cos phi * cos the * sin psi - sin phi * sin the * cos psi))"

definition Quaternion_Inverse :: "Quaternion \<Rightarrow> Quaternion" where
  "Quaternion_Inverse q =
     (let s = Quaternion_SquaredNorm q in
      if s = 0 then Quaternion 1 0 0 0
      else Quaternion (qw q / s) (- qx q / s) (- qy q / s) (- qz q / s))"

definition Quaternion_mul :: "Quaternion \<Rightarrow> Quaternion \<Rightarrow> Quaternion" where
  "Quaternion_mul p q =
     Quaternion
       (qw p * qw q - qx p * qx q - qy p * qy q - qz p * qz q)
       (qw p * qx q + qx p * qw q + qy p * qz q - qz p * qy q)
       (qw p * qy q - qx p * qz q + qy p * qw q + qz p * qx q)
       (qw p * qz q + qx p * qy q - qy p * qx q + qz p * qw q)"

definition Quaternion_ops :: QuaternionOps where
  "Quaternion_ops =
     \<lparr>Euler = Quaternion_Euler, Inverse = Quaternion_Inverse, Multiply = Quaternion_mul\<rparr>"

subsection \<open>Rotational offset of the principal axes\<close>

definition ClampedSqrt :: "real \<Rightarrow> real" where
  "ClampedSqrt x = (if x \<le> 0 then 0 else sqrt x)"

text \<open>\<^verbatim>\<open>Angle2(_v, _tol = 1e-12)\<close>, always called with the default tolerance.\<close>

definition Angle2 :: "Vector2 \<Rightarrow> real" where
  "Angle2 v = (if Vector2_SquaredLength v < 1 / 10 ^ 12 then 0 else atan2 (v2y v) (v2x v))"

text \<open>
  \<^verbatim>\<open>PrincipalAxesOffset\<close> is one long function; the model follows it in four
  pieces. \<open>PrincipalAxesOffset_repeated\<close> is the block under
  \<^verbatim>\<open>if (unequalMoment >= 0)\<close>, \<open>PrincipalAxesOffset_signs\<close> is the last
  \<^verbatim>\<open>else\<close> block of the branch without repeated moments (it returns the chosen
  \<open>phi1\<close> and the sign vector \<^verbatim>\<open>signsPhi23\<close>), \<open>PrincipalAxesOffset_general\<close>
  is that branch, and \<open>PrincipalAxesOffset\<close> is the function itself. Each piece
  gets the values of the local variables it reads. Division is that of the reals,
  where \<open>x / 0 = 0\<close>.
\<close>

definition PrincipalAxesOffset_repeated ::
  "QuaternionOps \<Rightarrow> real \<Rightarrow> Vector3 \<Rightarrow> int \<Rightarrow> Vector2 \<Rightarrow> Vector2 \<Rightarrow> MassMatrix3 \<Rightarrow> Quaternion" where
  "PrincipalAxesOffset_repeated ops tol moments unequalMoment f1 f2 m =
     (let momentsDiff3 = Vector3_at moments 1 - Vector3_at moments unequalMoment;
          s = (Vector3_at (Ixxyyzz m) 0 - Vector3_at moments unequalMoment) / momentsDiff3;
          phi3 = 0;
          phi2 = arccos (clamp (ClampedSqrt s) (- 1) 1);
          g1 = Vector2 0 (0.5 * momentsDiff3 * sin (2 * phi2));
          g2 = Vector2 (momentsDiff3 * s) 0;
          phi12 = Angle_Normalize (0.5 * (Angle2 g2 - Angle2 f2));
          phi1 = phi12;
          f1small = (Vector2_SquaredLength f1 < tol\<^sup>2);
          phi2 =
            (if \<not> f1small then
               let phi11a = Angle_Normalize (Angle2 g1 - Angle2 f1);
                   phi11b = Angle_Normalize (Angle2 (Vector2_neg g1) - Angle2 f1);
                   erra = (sin phi1 - sin phi11a)\<^sup>2 + (cos phi1 - cos phi11a)\<^sup>2;
                   errb = (sin phi1 - sin phi11b)\<^sup>2 + (cos phi1 - cos phi11b)\<^sup>2
               in if errb < erra then phi2 * (- 1) else phi2
             else phi2);
          result = Inverse ops (Euler ops (- phi1) (- phi2) (- phi3))
      in if unequalMoment = 0 then Multiply ops result (Euler ops 0 (pi / 2) 0) else result)"

definition PrincipalAxesOffset_signs ::
  "Vector2 \<Rightarrow> Vector2 \<Rightarrow> Vector2 \<Rightarrow> Vector2 \<Rightarrow> real \<times> Vector2" where
  "PrincipalAxesOffset_signs g1 g2 f1 f2 =
     (let phi11 = Angle_Normalize (Angle2 g1 - Angle2 f1);
          phi12 = Angle_Normalize (0.5 * (Angle2 g2 - Angle2 f2));
          err = (sin phi11 - sin phi12)\<^sup>2 + (cos phi11 - cos phi12)\<^sup>2;
          phi1 = phi11;
          signsPhi23 = Vector2 1 1;
          g1a = Vector2_mul (Vector2 1 (- 1)) g1;
          g2a = Vector2_mul (Vector2 1 (- 1)) g2;
          phi11a = Angle_Normalize (Angle2 g1a - Angle2 f1);
          phi12a = Angle_Normalize (0.5 * (Angle2 g2a - Angle2 f2));
          erra = (sin phi11a - sin phi12a)\<^sup>2 + (cos phi11a - cos phi12a)\<^sup>2;
          (err, phi1, signsPhi23) =
            (if erra < err then (erra, phi11a, Vector2 (- 1) 1) else (err, phi1, signsPhi23));
          g1b = Vector2_mul (Vector2 (- 1) 1) g1;
          g2b = Vector2_mul (Vector2 1 (- 1)) g2;
          phi11b = Angle_Normalize (Angle2 g1b - Angle2 f1);
          phi12b = Angle_Normalize (0.5 * (Angle2 g2b - Angle2 f2));
          errb = (sin phi11b - sin phi12b)\<^sup>2 + (cos phi11b - cos phi12b)\<^sup>2;
          (err, phi1, signsPhi23) =
            (if errb < err then (errb, phi11b, Vector2 1 (- 1)) else (err, phi1, signsPhi23));
          g1c = Vector2_mul (Vector2 (- 1) (- 1)) g1;
          g2c = g2;
          phi11c = Angle_Normalize (Angle2 g1c - Angle2 f1);
          phi12c = Angle_Normalize (0.5 * (Angle2 g2c - Angle2 f2));
          errc = (sin phi11c - sin phi12c)\<^sup>2 + (cos phi11c - cos phi12c)\<^sup>2;
          (err, phi1, signsPhi23) =
            (if errc < err then (errc, phi11c, Vector2 (- 1) (- 1)) else (err, phi1, signsPhi23))
      in (phi1, signsPhi23))"

definition PrincipalAxesOffset_general ::
  "QuaternionOps \<Rightarrow> real \<Rightarrow> Vector3 \<Rightarrow> Vector2 \<Rightarrow> Vector2 \<Rightarrow> MassMatrix3 \<Rightarrow> Quaternion" where
  "PrincipalAxesOffset_general ops tol moments f1 f2 m =
     (let v = ((Vector3_at (Ixyxzyz m) 0)\<^sup>2 + (Vector3_at (Ixyxzyz m) 1)\<^sup>2
               + (Vector3_at (Ixxyyzz m) 0 - Vector3_at moments 2)
                 * (Vector3_at (Ixxyyzz m) 0 + Vector3_at moments 2
                    - Vector3_at moments 0 - Vector3_at moments 1))
              / ((Vector3_at moments 1 - Vector3_at moments 2)
                 * (Vector3_at moments 2 - Vector3_at moments 0));
          w = (Vector3_at (Ixxyyzz m) 0 - Vector3_at moments 2
               + (Vector3_at moments 2 - Vector3_at moments 1) * v)
              / ((Vector3_at moments 0 - Vector3_at moments 1) * v);
          phi1 = (0::real);
          phi2 = arccos (clamp (ClampedSqrt v) (- 1) 1);
          phi3 = arccos (clamp (ClampedSqrt w) (- 1) 1);
          g1 = Vector2
                 (0.5 * (Vector3_at moments 0 - Vector3_at moments 1) * ClampedSqrt v
                    * sin (2 * phi3))
                 (0.5 * ((Vector3_at moments 0 - Vector3_at moments 1) * w
                           + Vector3_at moments 1 - Vector3_at moments 2) * sin (2 * phi2));
          g2 = Vector2
                 ((Vector3_at moments 0 - Vector3_at moments 1) * (1 + (v - 2) * w)
                    + (Vector3_at moments 1 - Vector3_at moments 2) * v)
                 ((Vector3_at moments 0 - Vector3_at moments 1) * sin phi2 * sin (2 * phi3));
          f1small = (Vector2_SquaredLength f1 < tol\<^sup>2);
          f2small = (Vector2_SquaredLength f2 < tol\<^sup>2)
      in
        if f1small \<and> f2small then Quaternion 0 0 0 0
        else
          let (phi1, phi2, phi3) =
                (if f1small then
                   (Angle_Normalize (0.5 * (Angle2 g2 - Angle2 f2)), phi2, phi3)
                 else if f2small then
                   (Angle_Normalize (Angle2 g1 - Angle2 f1), phi2, phi3)
                 else
                   let (phi1, signsPhi23) = PrincipalAxesOffset_signs g1 g2 f1 f2
                   in (phi1, phi2 * v2x signsPhi23, phi3 * v2y signsPhi23))
          in Inverse ops (Euler ops (- phi1) (- phi2) (- phi3)))"

definition PrincipalAxesOffset :: "QuaternionOps \<Rightarrow> real \<Rightarrow> MassMatrix3 \<Rightarrow> Quaternion" where
  "PrincipalAxesOffset ops tol0 m =
     (let tol = tol0 * Vector3_Max (Ixxyyzz m);
          moments = PrincipalMoments (1 / 10 ^ 6) m
      in
        if Vector3_Equal moments (Ixxyyzz m) tol then Quaternion_Identity
        else
          let f1 = Vector2 (Vector3_at (Ixyxzyz m) 0) (- Vector3_at (Ixyxzyz m) 1);
              f2 = Vector2 (Vector3_at (Ixxyyzz m) 1 - Vector3_at (Ixxyyzz m) 2)
                           (- 2 * Vector3_at (Ixyxzyz m) 2);
              momentsDiff = Vector2 (Vector3_at moments 0 - Vector3_at moments 1)
                                    (Vector3_at moments 1 - Vector3_at moments 2);
              unequalMoment =
                (if equal (v2x momentsDiff) 0 tol then 2
                 else if equal (v2y momentsDiff) 0 tol then 0
                 else - 1)
          in
            if unequalMoment \<ge> 0 then
              PrincipalAxesOffset_repeated ops tol moments unequalMoment f1 f2 m
            else PrincipalAxesOffset_general ops tol moments f1 f2 m)"

subsection \<open>Reconstruction from the principal axes\<close>

text \<open>
  Modelled from the spec: the rotation matrix of a quaternion, the transpose and the
  product of 3x3 matrices, and the equality of two matrices within a tolerance
  (\<^verbatim>\<open>Matrix3.hh\<close> and \<^verbatim>\<open>Quaternion.hh\<close> are not part of the sources at hand).
  \<open>reconstruct q L\<close> is \<open>R\<^sup>T L R\<close> for the rotation matrix \<open>R\<close> of \<open>q\<close> and the
  diagonal matrix of \<open>L\<close>.
\<close>

definition Matrix3_of_Quaternion :: "Quaternion \<Rightarrow> Matrix3" where
  "Matrix3_of_Quaternion q =
     (let w = qw q; x = qx q; y = qy q; z = qz q in
      Matrix3
        (1 - 2 * y * y - 2 * z * z) (2 * x * y - 2 * z * w) (2 * x * z + 2 * y * w)
        (2 * x * y + 2 * z * w) (1 - 2 * x * x - 2 * z * z) (2 * y * z - 2 * x * w)
        (2 * x * z - 2 * y * w) (2 * y * z + 2 * x * w) (1 - 2 * x * x - 2 * y * y))"

fun Transposed :: "Matrix3 \<Rightarrow> Matrix3" where
  "Transposed (Matrix3 a00 a01 a02 a10 a11 a12 a20 a21 a22) =
     Matrix3 a00 a10 a20 a01 a11 a21 a02 a12 a22"

fun Matrix3_mul :: "Matrix3 \<Rightarrow> Matrix3 \<Rightarrow> Matrix3" where
  "Matrix3_mul (Matrix3 a00 a01 a02 a10 a11 a12 a20 a21 a22)
               (Matrix3 b00 b01 b02 b10 b11 b12 b20 b21 b22) =
     Matrix3
       (a00 * b00 + a01 * b10 + a02 * b20) (a00 * b01 + a01 * b11 + a02 * b21)
       (a00 * b02 + a01 * b12 + a02 * b22)
       (a10 * b00 + a11 * b10 + a12 * b20) (a10 * b01 + a11 * b11 + a12 * b21)
       (a10 * b02 + a11 * b12 + a12 * b22)
       (a20 * b00 + a21 * b10 + a22 * b20) (a20 * b01 + a21 * b11 + a22 * b21)
       (a20 * b02 + a21 * b12 + a22 * b22)"

fun Matrix3_Equal :: "Matrix3 \<Rightarrow> Matrix3 \<Rightarrow> real \<Rightarrow> bool" where
  "Matrix3_Equal (Matrix3 a00 a01 a02 a10 a11 a12 a20 a21 a22)
                 (Matrix3 b00 b01 b02 b10 b11 b12 b20 b21 b22) tol =
     (equal a00 b00 tol \<and> equal a01 b01 tol \<and> equal a02 b02 tol \<and>
      equal a10 b10 tol \<and> equal a11 b11 tol \<and> equal a12 b12 tol \<and>
      equal a20 b20 tol \<and> equal a21 b21 tol \<and> equal a22 b22 tol)"

definition Matrix3_diag :: "Vector3 \<Rightarrow> Matrix3" where
  "Matrix3_diag v = Matrix3 (vx v) 0 0 0 (vy v) 0 0 0 (vz v)"

definition reconstruct :: "Quaternion \<Rightarrow> Vector3 \<Rightarrow> Matrix3" where
  "reconstruct q L =
     (let R = Matrix3_of_Quaternion q
      in Matrix3_mul (Matrix3_mul (Transposed R) (Matrix3_diag L)) R)"

definition sorted_ascending :: "Vector3 \<Rightarrow> Vector3" where
  "sorted_ascending v = (case sort3 (vx v, vy v, vz v) of (a, b, c) \<Rightarrow> Vector3 a b c)"

section \<open>Auxiliary facts\<close>

lemma sort3_min_max:
  "sort3 (a, b, c) = (min (min a b) c, max (min a b) (min (max a b) c), max (max a b) c)"
  by (simp add: sort3_def sort2_def min_def max_def)

lemma nine_powr: "(9::real) powr (3/2) = 27"
proof -
  have "(9::real) powr (3/2) = (3 powr 2) powr (3/2)" by simp
  also have "\<dots> = 3 powr 3" by (simp only: powr_powr) simp
  also have "\<dots> = 27" by simp
  finally show ?thesis .
qed

lemma sqrt_nine: "sqrt 9 = 3"
  using real_sqrt_abs [of 3] by simp

lemma PrincipalMoments_cubic_aux:
  assumes "\<not> Vector3_Equal (Ixyxzyz m) Vector3_Zero (tol0 * Vector3_Max (Ixxyyzz m))"
  shows "PrincipalMoments tol0 m =
           cubic_moments (trace_MOI m) (minors_MOI m) (- Determinant (MOI m))
             (tol0 * Vector3_Max (Ixxyyzz m))"
proof -
  obtain ixx iyy izz where d: "Ixxyyzz m = Vector3 ixx iyy izz" by (cases "Ixxyyzz m")
  obtain ixy ixz iyz where o: "Ixyxzyz m = Vector3 ixy ixz iyz" by (cases "Ixyxzyz m")
  have b: "Vector3_Sum (Ixxyyzz m) = trace_MOI m"
    by (simp add: d Vector3_Sum_def trace_MOI_def IXX_def IYY_def IZZ_def Vector3_at_def)
  have c: "Vector3_at (Ixxyyzz m) 0 * Vector3_at (Ixxyyzz m) 1 - (Vector3_at (Ixyxzyz m) 0)\<^sup>2
              + Vector3_at (Ixxyyzz m) 0 * Vector3_at (Ixxyyzz m) 2 - (Vector3_at (Ixyxzyz m) 1)\<^sup>2
              + Vector3_at (Ixxyyzz m) 1 * Vector3_at (Ixxyyzz m) 2 - (Vector3_at (Ixyxzyz m) 2)\<^sup>2
           = minors_MOI m"
    by (simp add: minors_MOI_def IXX_def IYY_def IZZ_def IXY_def IXZ_def IYZ_def)
  have dd: "Vector3_at (Ixxyyzz m) 0 * (Vector3_at (Ixyxzyz m) 2)\<^sup>2
              + Vector3_at (Ixxyyzz m) 1 * (Vector3_at (Ixyxzyz m) 1)\<^sup>2
              + Vector3_at (Ixxyyzz m) 2 * (Vector3_at (Ixyxzyz m) 0)\<^sup>2
              - Vector3_at (Ixxyyzz m) 0 * Vector3_at (Ixxyyzz m) 1 * Vector3_at (Ixxyyzz m) 2
              - 2 * Vector3_at (Ixyxzyz m) 0 * Vector3_at (Ixyxzyz m) 1 * Vector3_at (Ixyxzyz m) 2
           = - Determinant (MOI m)"
    by (simp add: MOI_def d o Vector3_at_def power2_eq_square algebra_simps)
  have half: "\<And>q p::real. 0.5 * q / p = q / (2 * p)" by simp
  have sc: "\<And>k. Vector3_scale k Vector3_One = Vector3 k k k"
    by (simp add: Vector3_scale_def Vector3_One_def)
  show ?thesis
    unfolding PrincipalMoments_def cubic_moments_def cubic_root_def Let_def b c dd half sc
      sort3_min_max
    using assms by simp
qed

lemma cubic_moments_p9_q54:
  assumes "b\<^sup>2 - 3 * c = 9" and "2 * b ^ 3 - 9 * b * c - 27 * d = 54" and "tol\<^sup>2 \<le> 9"
  shows "cubic_moments b c d tol = Vector3 (b / 3 - 1) (b / 3 - 1) (b / 3 + 2)"
proof -
  have np: "\<not> (9::real) < tol\<^sup>2" using assms(3) by simp
  have r0: "cubic_root b 9 0 0 = b / 3 + 2"
    by (simp add: cubic_root_def sqrt_nine add_divide_distrib)
  have r1: "cubic_root b 9 0 1 = b / 3 - 1"
    by (simp add: cubic_root_def sqrt_nine cos_120 add_divide_distrib diff_divide_distrib)
  have "cos (- (2 * pi / 3)) = - 1 / 2"
    by (simp only: cos_minus cos_120)
  then have r2: "cubic_root b 9 0 (- 1) = b / 3 - 1"
    by (simp add: cubic_root_def sqrt_nine add_divide_distrib diff_divide_distrib)
  show ?thesis
    unfolding cubic_moments_def Let_def assms(1) assms(2)
    using np by (simp add: nine_powr clamp_def r0 r1 r2)
qed

lemma cubic_moments_p9_q_low:
  assumes "b\<^sup>2 - 3 * c = 9" and "2 * b ^ 3 - 9 * b * c - 27 * d = q" and "q \<le> - 54"
    and "tol\<^sup>2 \<le> 9"
  shows "cubic_moments b c d tol = Vector3 (b / 3 - 2) (b / 3 + 1) (b / 3 + 1)"
proof -
  have np: "\<not> (9::real) < tol\<^sup>2" using assms(4) by simp
  have cl: "clamp (q / (2 * 27)) (- 1) 1 = - 1"
    using assms(3) by (simp add: clamp_def)
  have r0: "cubic_root b 9 pi 0 = b / 3 + 1"
    by (simp add: cubic_root_def sqrt_nine cos_60 add_divide_distrib)
  have "(pi + 2 * pi) / 3 = pi" by simp
  then have r1: "cubic_root b 9 pi 1 = b / 3 - 2"
    by (simp add: cubic_root_def sqrt_nine add_divide_distrib diff_divide_distrib)
  have "(pi + - 1 * (2 * pi)) / 3 = - (pi / 3)" by simp
  then have "cos ((pi + - 1 * (2 * pi)) / 3) = 1 / 2"
    by (simp only: cos_minus cos_60)
  then have r2: "cubic_root b 9 pi (- 1) = b / 3 + 1"
    unfolding cubic_root_def by (simp add: sqrt_nine add_divide_distrib)
  show ?thesis
    unfolding cubic_moments_def Let_def assms(1) assms(2) nine_powr cl
    using np by (simp add: r0 r1 r2)
qed

lemma cubic_moments_ascending:
  "vx (cubic_moments b c d tol) \<le> vy (cubic_moments b c d tol) \<and>
   vy (cubic_moments b c d tol) \<le> vz (cubic_moments b c d tol)"
proof -
  have mm: "min (min r0 r1) r2 \<le> max (min r0 r1) (min (max r0 r1) r2) \<and>
            max (min r0 r1) (min (max r0 r1) r2) \<le> max (max r0 r1) r2" for r0 r1 r2 :: real
    by (simp add: min_def max_def)
  show ?thesis
    unfolding cubic_moments_def Let_def using mm by simp
qed

lemma PrincipalMoments_ones:
  assumes "tol0 * a < 1" and "(tol0 * a)\<^sup>2 \<le> 9"
  shows "PrincipalMoments tol0 \<lparr>mass = mm, Ixxyyzz = Vector3 a a a, Ixyxzyz = Vector3 1 1 1\<rparr>
           = Vector3 (a - 1) (a - 1) (a + 2)"
proof -
  let ?m = "\<lparr>mass = mm, Ixxyyzz = Vector3 a a a, Ixyxzyz = Vector3 1 1 1\<rparr>"
  have tol: "tol0 * Vector3_Max (Ixxyyzz ?m) = tol0 * a"
    by (simp add: Vector3_Max_def)
  have nofast: "\<not> Vector3_Equal (Ixyxzyz ?m) Vector3_Zero (tol0 * Vector3_Max (Ixxyyzz ?m))"
    unfolding tol using assms(1) by (simp add: Vector3_Equal_def Vector3_Zero_def equal_def)
  have b: "trace_MOI ?m = 3 * a"
    by (simp add: trace_MOI_def IXX_def IYY_def IZZ_def Vector3_at_def)
  have c: "minors_MOI ?m = 3 * a\<^sup>2 - 3"
    by (simp add: minors_MOI_def IXX_def IYY_def IZZ_def IXY_def IXZ_def IYZ_def
        Vector3_at_def power2_eq_square)
  have d: "- Determinant (MOI ?m) = 3 * a - a ^ 3 - 2"
    by (simp add: MOI_def Vector3_at_def power3_eq_cube algebra_simps)
  have p: "(3 * a)\<^sup>2 - 3 * (3 * a\<^sup>2 - 3) = 9"
    by (simp add: power2_eq_square algebra_simps)
  have q: "2 * (3 * a) ^ 3 - 9 * (3 * a) * (3 * a\<^sup>2 - 3) - 27 * (3 * a - a ^ 3 - 2) = 54"
    by (simp add: power2_eq_square power3_eq_cube algebra_simps)
  have "PrincipalMoments tol0 ?m = cubic_moments (3 * a) (3 * a\<^sup>2 - 3) (3 * a - a ^ 3 - 2) (tol0 * a)"
    using PrincipalMoments_cubic_aux [OF nofast] by (simp only: b c d tol)
  also have "\<dots> = Vector3 (3 * a / 3 - 1) (3 * a / 3 - 1) (3 * a / 3 + 2)"
    by (rule cubic_moments_p9_q54 [OF p q assms(2)])
  finally show ?thesis by simp
qed

lemma PrincipalMoments_222:
  "PrincipalMoments (1 / 10 ^ 6) \<lparr>mass = 1, Ixxyyzz = Vector3 2 2 2, Ixyxzyz = Vector3 1 1 1\<rparr>
     = Vector3 1 1 4"
  using PrincipalMoments_ones [of "1 / 10 ^ 6" 2 1] by (simp add: power2_eq_square)

lemma PrincipalMoments_555:
  "PrincipalMoments (1 / 10 ^ 6) \<lparr>mass = 1, Ixxyyzz = Vector3 5 5 5, Ixyxzyz = Vector3 1 1 1\<rparr>
     = Vector3 4 4 7"
  using PrincipalMoments_ones [of "1 / 10 ^ 6" 5 1] by (simp add: power2_eq_square)

lemma PrincipalMoments_neg_ones:
  "PrincipalMoments (1 / 10 ^ 6)
     \<lparr>mass = 1, Ixxyyzz = Vector3 (- 1) (- 1) (- 1), Ixyxzyz = Vector3 0 0 0\<rparr>
   = Vector3 (- 1) (- 1) (- 1)"
proof -
  let ?m = "\<lparr>mass = 1, Ixxyyzz = Vector3 (- 1) (- 1) (- 1), Ixyxzyz = Vector3 0 0 0\<rparr>"
  have nofast:
    "\<not> Vector3_Equal (Ixyxzyz ?m) Vector3_Zero (1 / 10 ^ 6 * Vector3_Max (Ixxyyzz ?m))"
    by (simp add: Vector3_Equal_def Vector3_Zero_def equal_def Vector3_Max_def)
  have b: "trace_MOI ?m = - 3"
    by (simp add: trace_MOI_def IXX_def IYY_def IZZ_def Vector3_at_def)
  have c: "minors_MOI ?m = 3"
    by (simp add: minors_MOI_def IXX_def IYY_def IZZ_def IXY_def IXZ_def IYZ_def Vector3_at_def)
  have "cubic_moments (- 3) 3 d (1 / 10 ^ 6 * - 1) = Vector3 (- 1) (- 1) (- 1)" for d
    by (simp add: cubic_moments_def)
  then show ?thesis
    using PrincipalMoments_cubic_aux [OF nofast] by (simp add: b c Vector3_Max_def)
qed

lemma PrincipalAxesOffset_branches_aux:
  "PrincipalAxesOffset ops tol0 m =
     (let tol = tol0 * Vector3_Max (Ixxyyzz m);
          moments = PrincipalMoments (1 / 10 ^ 6) m;
          f1 = Vector2 (IXY m) (- IXZ m);
          f2 = Vector2 (IYY m - IZZ m) (- 2 * IYZ m)
      in if Vector3_Equal moments (Ixxyyzz m) tol then Quaternion_Identity
         else if equal (vx moments - vy moments) 0 tol
           then PrincipalAxesOffset_repeated ops tol moments 2 f1 f2 m
         else if equal (vy moments - vz moments) 0 tol
           then PrincipalAxesOffset_repeated ops tol moments 0 f1 f2 m
         else PrincipalAxesOffset_general ops tol moments f1 f2 m)"
  by (simp add: PrincipalAxesOffset_def Let_def Vector3_at_def IXY_def IXZ_def IYY_def IZZ_def
      IYZ_def)

lemma PrincipalAxesOffset_repeated_form:
  "\<exists>phi1 phi2.
     PrincipalAxesOffset_repeated ops tol moments unequalMoment f1 f2 m =
       (if unequalMoment = 0
        then Multiply ops (Inverse ops (Euler ops (- phi1) (- phi2) 0)) (Euler ops 0 (pi / 2) 0)
        else Inverse ops (Euler ops (- phi1) (- phi2) 0))"
  unfolding PrincipalAxesOffset_repeated_def Let_def
  by (intro exI) (simp only: minus_zero)

lemma PrincipalAxesOffset_general_sentinel:
  assumes "Vector2_SquaredLength f1 < tol\<^sup>2" and "Vector2_SquaredLength f2 < tol\<^sup>2"
  shows "PrincipalAxesOffset_general ops tol moments f1 f2 m = Quaternion 0 0 0 0"
  using assms by (simp add: PrincipalAxesOffset_general_def Let_def)

lemma PrincipalAxesOffset_general_form:
  assumes "\<not> (Vector2_SquaredLength f1 < tol\<^sup>2 \<and> Vector2_SquaredLength f2 < tol\<^sup>2)"
  shows "\<exists>phi1 phi2 phi3.
     PrincipalAxesOffset_general ops tol moments f1 f2 m =
       Inverse ops (Euler ops (- phi1) (- phi2) (- phi3))"
  using assms
  unfolding PrincipalAxesOffset_general_def Let_def
  by (auto split: prod.splits)

lemma PrincipalAxesOffset_repeated_tol:
  assumes "(Vector2_SquaredLength f1 < tolA\<^sup>2) = (Vector2_SquaredLength f1 < tolB\<^sup>2)"
  shows "PrincipalAxesOffset_repeated ops tolA moments unequalMoment f1 f2 m =
         PrincipalAxesOffset_repeated ops tolB moments unequalMoment f1 f2 m"
  unfolding PrincipalAxesOffset_repeated_def by (simp only: assms)

lemma PrincipalAxesOffset_general_tol:
  assumes "(Vector2_SquaredLength f1 < tolA\<^sup>2) = (Vector2_SquaredLength f1 < tolB\<^sup>2)"
    and "(Vector2_SquaredLength f2 < tolA\<^sup>2) = (Vector2_SquaredLength f2 < tolB\<^sup>2)"
  shows "PrincipalAxesOffset_general ops tolA moments f1 f2 m =
         PrincipalAxesOffset_general ops tolB moments f1 f2 m"
  unfolding PrincipalAxesOffset_general_def by (simp only: assms)

lemma PrincipalMoments_333:
  "PrincipalMoments (1 / 10 ^ 6)
     \<lparr>mass = 1, Ixxyyzz = Vector3 3 3 3, Ixyxzyz = Vector3 (- 1) (- 1) (- 1)\<rparr>
   = Vector3 1 4 4"
proof -
  let ?m = "\<lparr>mass = 1, Ixxyyzz = Vector3 3 3 3, Ixyxzyz = Vector3 (- 1) (- 1) (- 1)\<rparr>"
  have nofast:
    "\<not> Vector3_Equal (Ixyxzyz ?m) Vector3_Zero (1 / 10 ^ 6 * Vector3_Max (Ixxyyzz ?m))"
    by (simp add: Vector3_Equal_def Vector3_Zero_def equal_def Vector3_Max_def)
  have b: "trace_MOI ?m = 9"
    by (simp add: trace_MOI_def IXX_def IYY_def IZZ_def Vector3_at_def)
  have c: "minors_MOI ?m = 24"
    by (simp add: minors_MOI_def IXX_def IYY_def IZZ_def IXY_def IXZ_def IYZ_def Vector3_at_def)
  have d: "Determinant (MOI ?m) = 16"
    by (simp add: MOI_def Vector3_at_def)
  have "cubic_moments 9 24 (- 16) (1 / 10 ^ 6 * 3) = Vector3 (9 / 3 - 2) (9 / 3 + 1) (9 / 3 + 1)"
    by (rule cubic_moments_p9_q_low [where q = "- 54"]) (simp_all add: power2_eq_square)
  then show ?thesis
    using PrincipalMoments_cubic_aux [OF nofast] by (simp add: b c d Vector3_Max_def)
qed

lemma cos_150: "cos (5 * pi / 6) = - (sqrt 3 / 2)"
proof -
  have "5 * pi / 6 = pi - pi / 6" by simp
  then have "cos (5 * pi / 6) = cos (pi - pi / 6)" by simp
  also have "\<dots> = - cos (pi / 6)" by (rule cos_pi_minus)
  finally show ?thesis by (simp add: cos_30)
qed

lemma sqrt_12_3: "sqrt 12 * sqrt 3 = 6"
proof -
  have "sqrt 12 * sqrt 3 = sqrt (12 * 3)" by (simp only: real_sqrt_mult)
  also have "\<dots> = sqrt (6\<^sup>2)" by simp
  also have "\<dots> = 6" by (simp only: real_sqrt_abs abs_numeral)
  finally show ?thesis .
qed

lemma PrincipalMoments_225:
  "PrincipalMoments (1 / 10 ^ 6)
     \<lparr>mass = 1, Ixxyyzz = Vector3 2 2 5, Ixyxzyz = Vector3 1 0 0\<rparr>
   = Vector3 1 3 5"
proof -
  let ?m = "\<lparr>mass = 1, Ixxyyzz = Vector3 2 2 5, Ixyxzyz = Vector3 1 0 0\<rparr>"
  have nofast:
    "\<not> Vector3_Equal (Ixyxzyz ?m) Vector3_Zero (1 / 10 ^ 6 * Vector3_Max (Ixxyyzz ?m))"
    by (simp add: Vector3_Equal_def Vector3_Zero_def equal_def Vector3_Max_def)
  have b: "trace_MOI ?m = 9"
    by (simp add: trace_MOI_def IXX_def IYY_def IZZ_def Vector3_at_def)
  have c: "minors_MOI ?m = 23"
    by (simp add: minors_MOI_def IXX_def IYY_def IZZ_def IXY_def IXZ_def IYZ_def Vector3_at_def)
  have d: "Determinant (MOI ?m) = 15"
    by (simp add: MOI_def Vector3_at_def)
  have r0: "cubic_root 9 12 (pi / 2) 0 = 5"
    using sqrt_12_3 by (simp add: cubic_root_def cos_30)
  have "(pi / 2 + 2 * pi) / 3 = 5 * pi / 6" by simp
  then have r1: "cubic_root 9 12 (pi / 2) 1 = 1"
    using sqrt_12_3 by (simp add: cubic_root_def cos_150)
  have "(pi / 2 + - 1 * (2 * pi)) / 3 = - (pi / 2)" by simp
  then have "cos ((pi / 2 + - 1 * (2 * pi)) / 3) = 0" by (simp only: cos_minus cos_pi_half)
  then have r2: "cubic_root 9 12 (pi / 2) (- 1) = 3"
    unfolding cubic_root_def by simp
  have "cubic_moments 9 23 (- 15) (1 / 10 ^ 6 * 5) = Vector3 1 3 5"
    unfolding cubic_moments_def Let_def
    by (simp add: power2_eq_square clamp_def r0 r1 r2)
  then show ?thesis
    using PrincipalMoments_cubic_aux [OF nofast] by (simp add: b c d Vector3_Max_def)
qed

lemma PrincipalAxesOffset_diagonal_aux:
  assumes "Vector3_Equal (Ixyxzyz m) Vector3_Zero (1 / 10 ^ 6 * Vector3_Max (Ixxyyzz m))"
  shows "PrincipalMoments (1 / 10 ^ 6) m = Ixxyyzz m"
    and "PrincipalAxesOffset ops (1 / 10 ^ 6) m = Quaternion_Identity"
proof -
  show pm: "PrincipalMoments (1 / 10 ^ 6) m = Ixxyyzz m"
    using assms by (simp add: PrincipalMoments_def)
  have "0 \<le> 1 / 10 ^ 6 * Vector3_Max (Ixxyyzz m)"
    using assms unfolding Vector3_Equal_def equal_def by linarith
  then have "Vector3_Equal (Ixxyyzz m) (Ixxyyzz m) (1 / 10 ^ 6 * Vector3_Max (Ixxyyzz m))"
    by (simp add: Vector3_Equal_def equal_def)
  then show "PrincipalAxesOffset ops (1 / 10 ^ 6) m = Quaternion_Identity"
    unfolding PrincipalAxesOffset_def Let_def pm by simp
qed

lemma reconstruct_Identity: "reconstruct Quaternion_Identity L = Matrix3_diag L"
  by (simp add: reconstruct_def Quaternion_Identity_def Matrix3_of_Quaternion_def
      Matrix3_diag_def)

lemma sin_135: "sin (3 * pi / 4) = sqrt 2 / 2"
proof -
  have "3 * pi / 4 = pi - pi / 4" by simp
  then have "sin (3 * pi / 4) = sin (pi - pi / 4)" by simp
  also have "\<dots> = sin (pi / 4)" by (rule sin_pi_minus)
  finally show ?thesis by (simp add: sin_45)
qed

lemma cos_135: "cos (3 * pi / 4) = - (sqrt 2 / 2)"
proof -
  have "3 * pi / 4 = pi - pi / 4" by simp
  then have "cos (3 * pi / 4) = cos (pi - pi / 4)" by simp
  also have "\<dots> = - cos (pi / 4)" by (rule cos_pi_minus)
  finally show ?thesis by (simp add: cos_45)
qed

lemma Angle_Normalize_135: "Angle_Normalize (3 * pi / 4) = 3 * pi / 4"
proof -
  have "arctan (- 1) = - (pi / 4)" by (simp only: arctan_minus arctan_one)
  then show ?thesis
    unfolding Angle_Normalize_def sin_135 cos_135 atan2_def by simp
qed

lemma Angle_Normalize_m45: "Angle_Normalize (- (pi / 4)) = - (pi / 4)"
proof -
  have a: "arctan (- 1) = - (pi / 4)" by (simp only: arctan_minus arctan_one)
  have s: "sin (- (pi / 4)) = - (sqrt 2 / 2)" by (simp add: sin_45)
  have c: "cos (- (pi / 4)) = sqrt 2 / 2" by (simp add: cos_45)
  show ?thesis
    unfolding Angle_Normalize_def s c atan2_def using a by simp
qed

lemma sqrt_two_thirds: "0 \<le> sqrt (2 / 3)" "sqrt (2 / 3) \<le> 1" "(sqrt (2 / 3))\<^sup>2 = 2 / 3"
proof -
  show "0 \<le> sqrt (2 / 3)" by simp
  have "sqrt (2 / 3) \<le> sqrt 1" by (subst real_sqrt_le_iff) simp
  then show "sqrt (2 / 3) \<le> 1" by simp
  show "(sqrt (2 / 3))\<^sup>2 = 2 / 3" by simp
qed

lemma sin_cos_pitch:
  "cos (arccos (sqrt (2 / 3))) = sqrt (2 / 3)"
  "sin (arccos (sqrt (2 / 3))) = sqrt (1 / 3)"
proof -
  show "cos (arccos (sqrt (2 / 3))) = sqrt (2 / 3)"
    using sqrt_two_thirds(1,2) by (intro cos_arccos) linarith+
  have "sin (arccos (sqrt (2 / 3))) = sqrt (1 - (sqrt (2 / 3))\<^sup>2)"
    using sqrt_two_thirds(1,2) by (intro sin_arccos_abs) simp
  then show "sin (arccos (sqrt (2 / 3))) = sqrt (1 / 3)"
    by (simp only: sqrt_two_thirds(3)) simp
qed

lemma sin_double_pitch:
  "sin (2 * arccos (sqrt (2 / 3))) = 2 * sqrt (1 / 3) * sqrt (2 / 3)"
  by (simp only: sin_double sin_cos_pitch)

lemma PrincipalAxesOffset_repeated_flip:
  assumes d3: "Vector3_at moments 1 - Vector3_at moments unequalMoment = d3"
    and s: "(Vector3_at (Ixxyyzz m) 0 - Vector3_at moments unequalMoment) / d3 = s"
    and phi2: "arccos (clamp (ClampedSqrt s) (- 1) 1) = phi2"
    and phi1: "Angle_Normalize (0.5 * (Angle2 (Vector2 (d3 * s) 0) - Angle2 f2)) = phi1"
    and f1: "\<not> Vector2_SquaredLength f1 < tol\<^sup>2"
    and phi11a: "Angle_Normalize (Angle2 (Vector2 0 (0.5 * d3 * sin (2 * phi2))) - Angle2 f1)
                 = phi11a"
    and phi11b: "Angle_Normalize
                   (Angle2 (Vector2_neg (Vector2 0 (0.5 * d3 * sin (2 * phi2)))) - Angle2 f1)
                 = phi11b"
    and err: "(sin phi1 - sin phi11b)\<^sup>2 + (cos phi1 - cos phi11b)\<^sup>2
              < (sin phi1 - sin phi11a)\<^sup>2 + (cos phi1 - cos phi11a)\<^sup>2"
    and um: "unequalMoment \<noteq> 0"
  shows "PrincipalAxesOffset_repeated ops tol moments unequalMoment f1 f2 m
         = Inverse ops (Euler ops (- phi1) phi2 0)"
proof -
  have "PrincipalAxesOffset_repeated ops tol moments unequalMoment f1 f2 m
        = Inverse ops (Euler ops (- phi1) (- (phi2 * (- 1))) (- 0))"
    unfolding PrincipalAxesOffset_repeated_def Let_def d3 s phi2 phi1 phi11a phi11b
    using f1 err um by (simp only: if_True if_False not_False_eq_True simp_thms)
  then show ?thesis by simp
qed

lemma PrincipalAxesOffset_repeated_555:
  assumes "tol\<^sup>2 \<le> 2"
  shows "PrincipalAxesOffset_repeated ops tol (Vector3 4 4 7) 2 (Vector2 1 (- 1)) (Vector2 0 (- 2))
           \<lparr>mass = 1, Ixxyyzz = Vector3 5 5 5, Ixyxzyz = Vector3 1 1 1\<rparr>
         = Inverse ops (Euler ops (- (3 * pi / 4)) (arccos (sqrt (2 / 3))) 0)"
proof (rule PrincipalAxesOffset_repeated_flip [where ?d3.0 = "- 3" and s = "2 / 3"
      and ?phi11a.0 = "- (pi / 4)" and ?phi11b.0 = "3 * pi / 4"])
  define k where "k = sin (2 * arccos (sqrt (2 / 3)))"
  have k: "0 < k"
  proof -
    have "0 < sqrt (1 / 3) * sqrt (2 / 3)" by simp
    then show "0 < k" unfolding k_def sin_double_pitch by simp
  qed
  have "arctan (- 1) = - (pi / 4)" by (simp only: arctan_minus arctan_one)
  then have f1: "Angle2 (Vector2 1 (- 1)) = - (pi / 4)"
    by (simp add: Angle2_def Vector2_SquaredLength_def atan2_def)
  have ksq: "k * k = 8 / 9"
  proof -
    have "k * k = 4 * (sqrt (1 / 3) * sqrt (1 / 3)) * (sqrt (2 / 3) * sqrt (2 / 3))"
      unfolding k_def sin_double_pitch by simp
    also have "\<dots> = 8 / 9" by simp
    finally show "k * k = 8 / 9" .
  qed
  have len: "\<not> (0.5 * (- 3) * k) * (0.5 * (- 3) * k) < 1 / 10 ^ 12"
  proof -
    have "(0.5 * (- 3) * k) * (0.5 * (- 3) * k) = 9 / 4 * (k * k)" by simp
    then show ?thesis unfolding ksq by simp
  qed
  show "Vector3_at (Vector3 4 4 7) 1 - Vector3_at (Vector3 4 4 7) 2 = - 3"
    by (simp add: Vector3_at_def)
  show "(Vector3_at (Ixxyyzz \<lparr>mass = 1, Ixxyyzz = Vector3 5 5 5, Ixyxzyz = Vector3 1 1 1\<rparr>) 0
          - Vector3_at (Vector3 4 4 7) 2) / - 3 = 2 / 3"
    by (simp add: Vector3_at_def)
  have "- 1 \<le> sqrt (2 / 3)" using sqrt_two_thirds(1) by linarith
  then have cl: "clamp (ClampedSqrt (2 / 3)) (- 1) 1 = sqrt (2 / 3)"
    using sqrt_two_thirds(2) by (simp add: clamp_def ClampedSqrt_def min_def max_def)
  show "arccos (clamp (ClampedSqrt (2 / 3)) (- 1) 1) = arccos (sqrt (2 / 3))"
    by (simp only: cl)
  have g2: "Angle2 (Vector2 (- 3 * (2 / 3)) 0) = pi"
    by (simp add: Angle2_def Vector2_SquaredLength_def atan2_def)
  have f2: "Angle2 (Vector2 0 (- 2)) = - (pi / 2)"
    by (simp add: Angle2_def Vector2_SquaredLength_def atan2_def)
  have "0.5 * (pi - - (pi / 2)) = 3 * pi / 4" by simp
  then show "Angle_Normalize (0.5 * (Angle2 (Vector2 (- 3 * (2 / 3)) 0) - Angle2 (Vector2 0 (- 2))))
        = 3 * pi / 4"
    unfolding g2 f2 by (simp only: Angle_Normalize_135)
  show "\<not> Vector2_SquaredLength (Vector2 1 (- 1)) < tol\<^sup>2"
    using assms by (simp add: Vector2_SquaredLength_def)
  have g1: "Angle2 (Vector2 0 (0.5 * - 3 * k)) = - (pi / 2)"
    using k len by (simp add: Angle2_def Vector2_SquaredLength_def atan2_def)
  have g1n: "Angle2 (Vector2_neg (Vector2 0 (0.5 * - 3 * k))) = pi / 2"
    using k len by (simp add: Angle2_def Vector2_neg_def Vector2_SquaredLength_def atan2_def)
  have "- (pi / 2) - - (pi / 4) = - (pi / 4)" by simp
  then show "Angle_Normalize
      (Angle2 (Vector2 0 (0.5 * - 3 * sin (2 * arccos (sqrt (2 / 3))))) - Angle2 (Vector2 1 (- 1)))
      = - (pi / 4)"
    unfolding k_def [symmetric] g1 f1 by (simp only: Angle_Normalize_m45)
  have "pi / 2 - - (pi / 4) = 3 * pi / 4" by simp
  then show "Angle_Normalize
      (Angle2 (Vector2_neg (Vector2 0 (0.5 * - 3 * sin (2 * arccos (sqrt (2 / 3))))))
       - Angle2 (Vector2 1 (- 1)))
      = 3 * pi / 4"
    unfolding k_def [symmetric] g1n f1 by (simp only: Angle_Normalize_135)
  show "(sin (3 * pi / 4) - sin (3 * pi / 4))\<^sup>2 + (cos (3 * pi / 4) - cos (3 * pi / 4))\<^sup>2
        < (sin (3 * pi / 4) - sin (- (pi / 4)))\<^sup>2 + (cos (3 * pi / 4) - cos (- (pi / 4)))\<^sup>2"
    by (simp add: sin_135 cos_135 sin_45 cos_45 power2_eq_square)
  show "(2::int) \<noteq> 0" by simp
qed

lemma Quaternion_Euler_roll_pitch:
  "Quaternion_Inverse (Quaternion_Euler r p 0)
     = Quaternion (cos (r / 2) * cos (p / 2)) (- (sin (r / 2) * cos (p / 2)))
         (- (cos (r / 2) * sin (p / 2))) (sin (r / 2) * sin (p / 2))"
  "Quaternion_SquaredNorm (Quaternion_Inverse (Quaternion_Euler r p 0)) = 1"
proof -
  define ca sa cb sb where "ca = cos (r / 2)" and "sa = sin (r / 2)"
    and "cb = cos (p / 2)" and "sb = sin (p / 2)"
  have a: "sa * sa + ca * ca = 1" and b: "sb * sb + cb * cb = 1"
    unfolding ca_def sa_def cb_def sb_def
    using sin_cos_squared_add [of "r / 2"] sin_cos_squared_add [of "p / 2"]
    by (simp_all add: power2_eq_square)
  have e: "Quaternion_Euler r p 0 = Quaternion (ca * cb) (sa * cb) (ca * sb) (- (sa * sb))"
    by (simp add: Quaternion_Euler_def Let_def ca_def sa_def cb_def sb_def)
  have n: "Quaternion_SquaredNorm (Quaternion (ca * cb) (sa * cb) (ca * sb) (- (sa * sb))) = 1"
  proof -
    have "ca * cb * (ca * cb) + sa * cb * (sa * cb) + ca * sb * (ca * sb) + sa * sb * (sa * sb)
          = (sa * sa + ca * ca) * (sb * sb + cb * cb)"
      by (simp add: algebra_simps)
    then show ?thesis by (simp add: Quaternion_SquaredNorm_def a b)
  qed
  show i: "Quaternion_Inverse (Quaternion_Euler r p 0)
     = Quaternion (cos (r / 2) * cos (p / 2)) (- (sin (r / 2) * cos (p / 2)))
         (- (cos (r / 2) * sin (p / 2))) (sin (r / 2) * sin (p / 2))"
    unfolding e Quaternion_Inverse_def Let_def n
    by (simp add: ca_def sa_def cb_def sb_def)
  show "Quaternion_SquaredNorm (Quaternion_Inverse (Quaternion_Euler r p 0)) = 1"
    unfolding i using n
    by (simp add: Quaternion_SquaredNorm_def ca_def sa_def cb_def sb_def)
qed

lemma Matrix3_of_roll_pitch:
  "Matrix3_of_Quaternion (Quaternion_Inverse (Quaternion_Euler r p 0))
     = Matrix3 (cos p) 0 (- sin p)
               (sin p * sin r) (cos r) (cos p * sin r)
               (sin p * cos r) (- sin r) (cos p * cos r)"
proof -
  define ca sa cb sb where "ca = cos (r / 2)" and "sa = sin (r / 2)"
    and "cb = cos (p / 2)" and "sb = sin (p / 2)"
  have a: "sa * sa + ca * ca = 1" and b: "sb * sb + cb * cb = 1"
    unfolding ca_def sa_def cb_def sb_def
    using sin_cos_squared_add [of "r / 2"] sin_cos_squared_add [of "p / 2"]
    by (simp_all add: power2_eq_square)
  have cr: "cos r = ca * ca - sa * sa" and sr: "sin r = 2 * sa * ca"
    unfolding ca_def sa_def
    using cos_double [of "r / 2"] sin_double [of "r / 2"] by (simp_all add: power2_eq_square)
  have cp: "cos p = cb * cb - sb * sb" and sp: "sin p = 2 * sb * cb"
    unfolding cb_def sb_def
    using cos_double [of "p / 2"] sin_double [of "p / 2"] by (simp_all add: power2_eq_square)
  have q: "Quaternion_Inverse (Quaternion_Euler r p 0)
           = Quaternion (ca * cb) (- (sa * cb)) (- (ca * sb)) (sa * sb)"
    unfolding Quaternion_Euler_roll_pitch(1) ca_def sa_def cb_def sb_def ..
  have e00: "1 - 2 * (- (ca * sb)) * (- (ca * sb)) - 2 * (sa * sb) * (sa * sb)
             = cb * cb - sb * sb"
    using a b by algebra
  have e01: "2 * (- (sa * cb)) * (- (ca * sb)) - 2 * (sa * sb) * (ca * cb) = 0"
    by algebra
  have e02: "2 * (- (sa * cb)) * (sa * sb) + 2 * (- (ca * sb)) * (ca * cb) = - (2 * sb * cb)"
    using a by algebra
  have e10: "2 * (- (sa * cb)) * (- (ca * sb)) + 2 * (sa * sb) * (ca * cb)
             = 2 * sb * cb * (2 * sa * ca)"
    by algebra
  have e11: "1 - 2 * (- (sa * cb)) * (- (sa * cb)) - 2 * (sa * sb) * (sa * sb)
             = ca * ca - sa * sa"
    using a b by algebra
  have e12: "2 * (- (ca * sb)) * (sa * sb) - 2 * (- (sa * cb)) * (ca * cb)
             = (cb * cb - sb * sb) * (2 * sa * ca)"
    by algebra
  have e20: "2 * (- (sa * cb)) * (sa * sb) - 2 * (- (ca * sb)) * (ca * cb)
             = 2 * sb * cb * (ca * ca - sa * sa)"
    by algebra
  have e21: "2 * (- (ca * sb)) * (sa * sb) + 2 * (- (sa * cb)) * (ca * cb) = - (2 * sa * ca)"
    using b by algebra
  have e22: "1 - 2 * (- (sa * cb)) * (- (sa * cb)) - 2 * (- (ca * sb)) * (- (ca * sb))
             = (cb * cb - sb * sb) * (ca * ca - sa * sa)"
    using a b by algebra
  show ?thesis
    unfolding q Matrix3_of_Quaternion_def Let_def Quaternion.sel cr sr cp sp
      e00 e01 e02 e10 e11 e12 e20 e21 e22 ..
qed

lemma congruence_transposed:
  fixes a b c :: real
  assumes aa: "a * a = 2 / 3" and bb: "b * b = 1 / 3" and cc: "c * c = 1 / 2"
    and abc: "a * b * c = - 1 / 3"
  shows "Matrix3_mul
           (Matrix3_mul (Matrix3 a 0 (- b) (b * c) c (a * c) (b * c) (- c) (a * c))
              (Matrix3 4 0 0 0 4 0 0 0 7))
           (Transposed (Matrix3 a 0 (- b) (b * c) c (a * c) (b * c) (- c) (a * c)))
         = Matrix3 5 1 1 1 5 1 1 1 5"
proof -
  have e00: "a * 4 * a + - b * 7 * - b = 5"
  proof -
    have "a * 4 * a + - b * 7 * - b = 4 * (a * a) + 7 * (b * b)" by algebra
    then show ?thesis unfolding aa bb by simp
  qed
  have e01: "a * 4 * (b * c) + - b * 7 * (a * c) = 1"
  proof -
    have "a * 4 * (b * c) + - b * 7 * (a * c) = - 3 * (a * b * c)" by algebra
    then show ?thesis unfolding abc by simp
  qed
  have e10: "b * c * 4 * a + a * c * 7 * - b = 1"
  proof -
    have "b * c * 4 * a + a * c * 7 * - b = - 3 * (a * b * c)" by algebra
    then show ?thesis unfolding abc by simp
  qed
  have e11: "b * c * 4 * (b * c) + c * 4 * c + a * c * 7 * (a * c) = 5"
  proof -
    have "b * c * 4 * (b * c) + c * 4 * c + a * c * 7 * (a * c)
          = (4 * (b * b) + 4 + 7 * (a * a)) * (c * c)" by algebra
    then show ?thesis unfolding aa bb cc by simp
  qed
  have e12: "b * c * 4 * (b * c) + c * 4 * - c + a * c * 7 * (a * c) = 1"
  proof -
    have "b * c * 4 * (b * c) + c * 4 * - c + a * c * 7 * (a * c)
          = (4 * (b * b) - 4 + 7 * (a * a)) * (c * c)" by algebra
    then show ?thesis unfolding aa bb cc by simp
  qed
  have e21: "b * c * 4 * (b * c) + - c * 4 * c + a * c * 7 * (a * c) = 1"
  proof -
    have "b * c * 4 * (b * c) + - c * 4 * c + a * c * 7 * (a * c)
          = (4 * (b * b) - 4 + 7 * (a * a)) * (c * c)" by algebra
    then show ?thesis unfolding aa bb cc by simp
  qed
  have e22: "b * c * 4 * (b * c) + - c * 4 * - c + a * c * 7 * (a * c) = 5"
  proof -
    have "b * c * 4 * (b * c) + - c * 4 * - c + a * c * 7 * (a * c)
          = (4 * (b * b) + 4 + 7 * (a * a)) * (c * c)" by algebra
    then show ?thesis unfolding aa bb cc by simp
  qed
  show ?thesis
    unfolding Transposed.simps Matrix3_mul.simps
    by (simp only: e00 e01 e10 e11 e12 e21 e22 mult_zero_left mult_zero_right add_0_left
        add_0_right)
qed

lemma congruence_documented:
  fixes a b c :: real
  assumes aa: "a * a = 2 / 3" and bb: "b * b = 1 / 3" and cc: "c * c = 1 / 2"
  shows "Matrix3_at
           (Matrix3_mul
              (Matrix3_mul
                 (Transposed (Matrix3 a 0 (- b) (b * c) c (a * c) (b * c) (- c) (a * c)))
                 (Matrix3 4 0 0 0 4 0 0 0 7))
              (Matrix3 a 0 (- b) (b * c) c (a * c) (b * c) (- c) (a * c))) 0 0
         = 9 / 2"
proof -
  have "a * 4 * a + b * c * 4 * (b * c) + b * c * 7 * (b * c)
        = 4 * (a * a) + 11 * ((b * b) * (c * c))" by algebra
  then have "a * 4 * a + b * c * 4 * (b * c) + b * c * 7 * (b * c) = 9 / 2"
    unfolding aa bb cc by simp
  then show ?thesis by simp
qed

lemma PrincipalAxesOffset_555:
  "PrincipalAxesOffset Quaternion_ops (1 / 10 ^ 6)
     \<lparr>mass = 1, Ixxyyzz = Vector3 5 5 5, Ixyxzyz = Vector3 1 1 1\<rparr>
   = Quaternion_Inverse (Quaternion_Euler (- (3 * pi / 4)) (arccos (sqrt (2 / 3))) 0)"
proof -
  let ?m = "\<lparr>mass = 1, Ixxyyzz = Vector3 5 5 5, Ixyxzyz = Vector3 1 1 1\<rparr>"
  have r: "PrincipalAxesOffset_repeated Quaternion_ops (1 / 10 ^ 6 * 5) (Vector3 4 4 7) 2
             (Vector2 1 (- 1)) (Vector2 0 (- 2)) ?m
           = Quaternion_Inverse (Quaternion_Euler (- (3 * pi / 4)) (arccos (sqrt (2 / 3))) 0)"
    using PrincipalAxesOffset_repeated_555 [of "1 / 10 ^ 6 * 5" Quaternion_ops]
    by (simp add: Quaternion_ops_def power2_eq_square)
  have "PrincipalAxesOffset Quaternion_ops (1 / 10 ^ 6) ?m
        = PrincipalAxesOffset_repeated Quaternion_ops (1 / 10 ^ 6 * 5) (Vector3 4 4 7) 2
            (Vector2 1 (- 1)) (Vector2 0 (- 2)) ?m"
    using PrincipalAxesOffset_branches_aux [of Quaternion_ops "1 / 10 ^ 6" ?m]
      PrincipalMoments_555
    by (simp add: Let_def Vector3_Max_def Vector3_Equal_def equal_def IXY_def IXZ_def IYY_def
        IZZ_def IYZ_def Vector3_at_def)
  then show ?thesis using r by simp
qed

lemma rotation_555:
  "Matrix3_of_Quaternion
     (Quaternion_Inverse (Quaternion_Euler (- (3 * pi / 4)) (arccos (sqrt (2 / 3))) 0))
   = Matrix3 (sqrt (2 / 3)) 0 (- sqrt (1 / 3))
       (sqrt (1 / 3) * - (sqrt 2 / 2)) (- (sqrt 2 / 2)) (sqrt (2 / 3) * - (sqrt 2 / 2))
       (sqrt (1 / 3) * - (sqrt 2 / 2)) (- (- (sqrt 2 / 2))) (sqrt (2 / 3) * - (sqrt 2 / 2))"
proof -
  have c: "cos (- (3 * pi / 4)) = - (sqrt 2 / 2)"
    by (simp only: cos_minus cos_135)
  have s: "sin (- (3 * pi / 4)) = - (sqrt 2 / 2)"
    by (simp only: sin_minus sin_135)
  show ?thesis
    unfolding Matrix3_of_roll_pitch sin_cos_pitch c s ..
qed

lemma pitch_roll_products:
  "sqrt (2 / 3) * sqrt (2 / 3) = 2 / 3"
  "sqrt (1 / 3) * sqrt (1 / 3) = 1 / 3"
  "- (sqrt 2 / 2) * - (sqrt 2 / 2) = 1 / 2"
  "sqrt (2 / 3) * sqrt (1 / 3) * - (sqrt 2 / 2) = - 1 / 3"
proof -
  show "sqrt (2 / 3) * sqrt (2 / 3) = 2 / 3" by simp
  show "sqrt (1 / 3) * sqrt (1 / 3) = 1 / 3" by simp
  show "- (sqrt 2 / 2) * - (sqrt 2 / 2) = 1 / 2" by simp
  have "sqrt (2 / 3) * sqrt (1 / 3) * sqrt 2 = sqrt (2 / 3 * (1 / 3) * 2)"
    by (simp only: real_sqrt_mult)
  also have "\<dots> = sqrt ((2 / 3)\<^sup>2)" by (simp add: power2_eq_square)
  also have "\<dots> = 2 / 3" by simp
  finally have "sqrt (2 / 3) * sqrt (1 / 3) * sqrt 2 = 2 / 3" .
  then show "sqrt (2 / 3) * sqrt (1 / 3) * - (sqrt 2 / 2) = - 1 / 3" by simp
qed

lemma Matrix3_Equal_at_00:
  "Matrix3_Equal A B tol \<Longrightarrow> \<bar>Matrix3_at A 0 0 - Matrix3_at B 0 0\<bar> \<le> tol"
  by (cases A; cases B) (simp add: equal_def)

section \<open>Properties\<close>

text \<open>
  Claim C1. The claim, like the comment above \<^verbatim>\<open>PrincipalAxesOffset\<close>, states the
  reconstruction \<open>MOI = R\<^sup>T L R\<close>. For the valid state with diagonal \<open>(5, 5, 5)\<close> and
  off-diagonal \<open>(1, 1, 1)\<close> the function takes the repeated-moment branch and returns the
  unit quaternion \<^verbatim>\<open>Quaternion(-3 pi/4, acos(sqrt(2/3)), 0).Inverse()\<close>; the principal
  moments are \<open>(4, 4, 7)\<close>, already ascending. There \<open>R\<^sup>T L R\<close> has \<open>9/2\<close> in its first
  entry where \<^verbatim>\<open>MOI()\<close> has \<open>5\<close>, so the two differ by more than \<open>1/4\<close>, while the
  transposed product \<open>R L R\<^sup>T\<close> is \<^verbatim>\<open>MOI()\<close> exactly.
\<close>

theorem reconstruction_transposed:
  "let m = \<lparr>mass = 1, Ixxyyzz = Vector3 5 5 5, Ixyxzyz = Vector3 1 1 1\<rparr>;
       q = PrincipalAxesOffset Quaternion_ops (1 / 10 ^ 6) m;
       L = sorted_ascending (PrincipalMoments (1 / 10 ^ 6) m);
       R = Matrix3_of_Quaternion q
   in IsValid m \<and>
      Quaternion_SquaredNorm q = 1 \<and>
      PrincipalMoments (1 / 10 ^ 6) m = Vector3 4 4 7 \<and>
      L = Vector3 4 4 7 \<and>
      MOI m = Matrix3 5 1 1 1 5 1 1 1 5 \<and>
      reconstruct q L = Matrix3_mul (Matrix3_mul (Transposed R) (Matrix3_diag L)) R \<and>
      Matrix3_at (reconstruct q L) 0 0 = 9 / 2 \<and>
      \<not> Matrix3_Equal (reconstruct q L) (MOI m) (1 / 4) \<and>
      Matrix3_mul (Matrix3_mul R (Matrix3_diag L)) (Transposed R) = MOI m"
proof -
  let ?m = "\<lparr>mass = 1, Ixxyyzz = Vector3 5 5 5, Ixyxzyz = Vector3 1 1 1\<rparr>"
  let ?q = "Quaternion_Inverse (Quaternion_Euler (- (3 * pi / 4)) (arccos (sqrt (2 / 3))) 0)"
  have valid: "IsValid ?m"
    unfolding IsValid_def PrincipalMoments_555
    by (simp add: IsPositive_def ValidMoments_def MOI_def IXX_def IYY_def IXY_def Vector3_at_def)
  have L: "sorted_ascending (Vector3 4 4 7) = Vector3 4 4 7"
    by (simp add: sorted_ascending_def sort3_min_max)
  have moi: "MOI ?m = Matrix3 5 1 1 1 5 1 1 1 5"
    by (simp add: MOI_def Vector3_at_def)
  have d: "Matrix3_diag (Vector3 4 4 7) = Matrix3 4 0 0 0 4 0 0 0 7"
    by (simp add: Matrix3_diag_def)
  have unit: "Quaternion_SquaredNorm ?q = 1"
    by (rule Quaternion_Euler_roll_pitch(2))
  have rec: "reconstruct ?q (Vector3 4 4 7)
               = Matrix3_mul (Matrix3_mul (Transposed (Matrix3_of_Quaternion ?q))
                   (Matrix3_diag (Vector3 4 4 7))) (Matrix3_of_Quaternion ?q)"
    by (simp add: reconstruct_def Let_def)
  have e00: "Matrix3_at (reconstruct ?q (Vector3 4 4 7)) 0 0 = 9 / 2"
    unfolding rec rotation_555 d minus_minus
    using congruence_documented [OF pitch_roll_products(1,2,3)] by simp
  have ne: "\<not> Matrix3_Equal (reconstruct ?q (Vector3 4 4 7)) (MOI ?m) (1 / 4)"
  proof
    assume "Matrix3_Equal (reconstruct ?q (Vector3 4 4 7)) (MOI ?m) (1 / 4)"
    from Matrix3_Equal_at_00 [OF this] show False
      unfolding e00 moi by simp
  qed
  have tr: "Matrix3_mul (Matrix3_mul (Matrix3_of_Quaternion ?q) (Matrix3_diag (Vector3 4 4 7)))
              (Transposed (Matrix3_of_Quaternion ?q)) = MOI ?m"
    unfolding rotation_555 d moi minus_minus
    using congruence_transposed [OF pitch_roll_products] by simp
  show ?thesis
    unfolding Let_def PrincipalAxesOffset_555 PrincipalMoments_555 L
    using valid unit moi rec e00 ne tr by simp
qed

text \<open>
  On the diagonal fast path the rotation is the identity and both products agree. There
  the moments come back in the stored order, so \<open>L\<close> has to be taken in the order
  returned: sorted ascending, the diagonal \<open>(3, 2, 1)\<close> would give \<open>diag (1, 2, 3)\<close>.
\<close>

lemma reconstruction_sorted_diagonal:
  "PrincipalAxesOffset Quaternion_ops (1 / 10 ^ 6)
     \<lparr>mass = 1, Ixxyyzz = Vector3 3 2 1, Ixyxzyz = Vector3 0 0 0\<rparr> = Quaternion 1 0 0 0 \<and>
   Quaternion_SquaredNorm (PrincipalAxesOffset Quaternion_ops (1 / 10 ^ 6)
     \<lparr>mass = 1, Ixxyyzz = Vector3 3 2 1, Ixyxzyz = Vector3 0 0 0\<rparr>) = 1 \<and>
   reconstruct
     (PrincipalAxesOffset Quaternion_ops (1 / 10 ^ 6)
        \<lparr>mass = 1, Ixxyyzz = Vector3 3 2 1, Ixyxzyz = Vector3 0 0 0\<rparr>)
     (sorted_ascending (PrincipalMoments (1 / 10 ^ 6)
        \<lparr>mass = 1, Ixxyyzz = Vector3 3 2 1, Ixyxzyz = Vector3 0 0 0\<rparr>))
     = Matrix3 1 0 0 0 2 0 0 0 3 \<and>
   MOI \<lparr>mass = 1, Ixxyyzz = Vector3 3 2 1, Ixyxzyz = Vector3 0 0 0\<rparr>
     = Matrix3 3 0 0 0 2 0 0 0 1 \<and>
   \<not> Matrix3_Equal
       (reconstruct
          (PrincipalAxesOffset Quaternion_ops (1 / 10 ^ 6)
             \<lparr>mass = 1, Ixxyyzz = Vector3 3 2 1, Ixyxzyz = Vector3 0 0 0\<rparr>)
          (sorted_ascending (PrincipalMoments (1 / 10 ^ 6)
             \<lparr>mass = 1, Ixxyyzz = Vector3 3 2 1, Ixyxzyz = Vector3 0 0 0\<rparr>)))
       (MOI \<lparr>mass = 1, Ixxyyzz = Vector3 3 2 1, Ixyxzyz = Vector3 0 0 0\<rparr>) 1"
proof -
  let ?m = "\<lparr>mass = 1, Ixxyyzz = Vector3 3 2 1, Ixyxzyz = Vector3 0 0 0\<rparr>"
  have fast: "Vector3_Equal (Ixyxzyz ?m) Vector3_Zero (1 / 10 ^ 6 * Vector3_Max (Ixxyyzz ?m))"
    by (simp add: Vector3_Equal_def Vector3_Zero_def equal_def Vector3_Max_def)
  have pm: "PrincipalMoments (1 / 10 ^ 6) ?m = Vector3 3 2 1"
    using PrincipalAxesOffset_diagonal_aux(1) [OF fast] by simp
  have q: "PrincipalAxesOffset Quaternion_ops (1 / 10 ^ 6) ?m = Quaternion_Identity"
    by (rule PrincipalAxesOffset_diagonal_aux(2) [OF fast])
  have srt: "sorted_ascending (Vector3 3 2 1) = Vector3 1 2 3"
    by (simp add: sorted_ascending_def sort3_min_max)
  have moi: "MOI ?m = Matrix3 3 0 0 0 2 0 0 0 1"
    by (simp add: MOI_def Vector3_at_def)
  show ?thesis
    unfolding q pm srt reconstruct_Identity moi
    by (simp add: Quaternion_Identity_def Quaternion_SquaredNorm_def Matrix3_diag_def equal_def)
qed

text \<open>
  With \<open>L\<close> in the order returned, the reconstruction of a state on the diagonal fast
  path is the diagonal of \<^verbatim>\<open>MOI()\<close>, and equals \<^verbatim>\<open>MOI()\<close> within the scaled tolerance,
  for every implementation \<open>ops\<close> of the quaternion operations.
\<close>

lemma reconstruction_diagonal:
  assumes "Vector3_Equal (Ixyxzyz m) Vector3_Zero (1 / 10 ^ 6 * Vector3_Max (Ixxyyzz m))"
  shows "PrincipalAxesOffset ops (1 / 10 ^ 6) m = Quaternion_Identity \<and>
         Quaternion_SquaredNorm (PrincipalAxesOffset ops (1 / 10 ^ 6) m) = 1 \<and>
         PrincipalMoments (1 / 10 ^ 6) m = Ixxyyzz m \<and>
         reconstruct (PrincipalAxesOffset ops (1 / 10 ^ 6) m) (PrincipalMoments (1 / 10 ^ 6) m)
           = Matrix3 (IXX m) 0 0 0 (IYY m) 0 0 0 (IZZ m) \<and>
         Matrix3_Equal
           (reconstruct (PrincipalAxesOffset ops (1 / 10 ^ 6) m)
              (PrincipalMoments (1 / 10 ^ 6) m))
           (MOI m) (1 / 10 ^ 6 * Vector3_Max (Ixxyyzz m))"
proof -
  note pm = PrincipalAxesOffset_diagonal_aux(1) [OF assms]
  note q = PrincipalAxesOffset_diagonal_aux(2) [OF assms, of ops]
  have tol: "0 \<le> 1 / 10 ^ 6 * Vector3_Max (Ixxyyzz m)"
    using assms unfolding Vector3_Equal_def equal_def by linarith
  have d: "Matrix3_diag (Ixxyyzz m) = Matrix3 (IXX m) 0 0 0 (IYY m) 0 0 0 (IZZ m)"
    by (simp add: Matrix3_diag_def IXX_def IYY_def IZZ_def Vector3_at_def)
  have eq: "Matrix3_Equal (Matrix3 (IXX m) 0 0 0 (IYY m) 0 0 0 (IZZ m)) (MOI m)
              (1 / 10 ^ 6 * Vector3_Max (Ixxyyzz m))"
    using assms tol
    by (simp add: MOI_def IXX_def IYY_def IZZ_def Vector3_at_def Vector3_Equal_def
        Vector3_Zero_def equal_def)
  show ?thesis
    unfolding q pm reconstruct_Identity d
    using eq by (simp add: Quaternion_Identity_def Quaternion_SquaredNorm_def)
qed

lemma reconstruction_diagonal_example:
  "Vector3_Equal (Vector3 (1 / 10 ^ 6) 0 0) Vector3_Zero
     (1 / 10 ^ 6 * Vector3_Max (Vector3 3 2 1)) \<and>
   PrincipalAxesOffset Quaternion_ops (1 / 10 ^ 6)
     \<lparr>mass = 1, Ixxyyzz = Vector3 3 2 1, Ixyxzyz = Vector3 (1 / 10 ^ 6) 0 0\<rparr>
     = Quaternion_Identity \<and>
   reconstruct
     (PrincipalAxesOffset Quaternion_ops (1 / 10 ^ 6)
        \<lparr>mass = 1, Ixxyyzz = Vector3 3 2 1, Ixyxzyz = Vector3 (1 / 10 ^ 6) 0 0\<rparr>)
     (PrincipalMoments (1 / 10 ^ 6)
        \<lparr>mass = 1, Ixxyyzz = Vector3 3 2 1, Ixyxzyz = Vector3 (1 / 10 ^ 6) 0 0\<rparr>)
     = Matrix3 3 0 0 0 2 0 0 0 1"
proof -
  let ?m = "\<lparr>mass = 1, Ixxyyzz = Vector3 3 2 1, Ixyxzyz = Vector3 (1 / 10 ^ 6) 0 0\<rparr>"
  have fast: "Vector3_Equal (Ixyxzyz ?m) Vector3_Zero (1 / 10 ^ 6 * Vector3_Max (Ixxyyzz ?m))"
    by (simp add: Vector3_Equal_def Vector3_Zero_def equal_def Vector3_Max_def)
  show ?thesis
    using reconstruction_diagonal [OF fast, of Quaternion_ops] fast
    by (simp add: IXX_def IYY_def IZZ_def Vector3_at_def reconstruct_Identity Matrix3_diag_def)
qed

text \<open>
  Claim C2, as stated, asks for the principal moments of every valid state to be
  sorted ascending. The valid diagonal state with moments \<open>(3, 2, 2)\<close> gets them back
  in the stored order, which is not ascending.
\<close>

theorem valid_moments_counterexample:
  "IsValid \<lparr>mass = 1, Ixxyyzz = Vector3 3 2 2, Ixyxzyz = Vector3 0 0 0\<rparr> \<and>
   PrincipalMoments (1 / 10 ^ 6) \<lparr>mass = 1, Ixxyyzz = Vector3 3 2 2, Ixyxzyz = Vector3 0 0 0\<rparr>
     = Vector3 3 2 2 \<and>
   \<not> (vx (PrincipalMoments (1 / 10 ^ 6)
            \<lparr>mass = 1, Ixxyyzz = Vector3 3 2 2, Ixyxzyz = Vector3 0 0 0\<rparr>)
        \<le> vy (PrincipalMoments (1 / 10 ^ 6)
            \<lparr>mass = 1, Ixxyyzz = Vector3 3 2 2, Ixyxzyz = Vector3 0 0 0\<rparr>))"
proof -
  let ?m = "\<lparr>mass = 1, Ixxyyzz = Vector3 3 2 2, Ixyxzyz = Vector3 0 0 0\<rparr>"
  have pm: "PrincipalMoments (1 / 10 ^ 6) ?m = Vector3 3 2 2"
    by (simp add: PrincipalMoments_def Vector3_Equal_def Vector3_Zero_def equal_def
        Vector3_Max_def)
  have "IsValid ?m"
    unfolding IsValid_def pm
    by (simp add: IsPositive_def ValidMoments_def MOI_def IXX_def IYY_def IXY_def Vector3_at_def)
  then show ?thesis using pm by simp
qed

text \<open>
  Claim C2, amended. For every state for which \<^verbatim>\<open>IsValid()\<close> is true,
  \<^verbatim>\<open>PrincipalMoments()\<close> at the default tolerance returns three positive values, each
  smaller than the sum of the other two; they are sorted ascending whenever the
  off-diagonal moments are not all within the scaled tolerance of zero (on the diagonal
  fast path the stored order is returned).
\<close>

theorem valid_moments_positive_triangle:
  assumes "IsValid m"
  shows "0 < vx (PrincipalMoments (1 / 10 ^ 6) m) \<and>
         0 < vy (PrincipalMoments (1 / 10 ^ 6) m) \<and>
         0 < vz (PrincipalMoments (1 / 10 ^ 6) m) \<and>
         vz (PrincipalMoments (1 / 10 ^ 6) m)
           < vx (PrincipalMoments (1 / 10 ^ 6) m) + vy (PrincipalMoments (1 / 10 ^ 6) m) \<and>
         vx (PrincipalMoments (1 / 10 ^ 6) m)
           < vy (PrincipalMoments (1 / 10 ^ 6) m) + vz (PrincipalMoments (1 / 10 ^ 6) m) \<and>
         vy (PrincipalMoments (1 / 10 ^ 6) m)
           < vz (PrincipalMoments (1 / 10 ^ 6) m) + vx (PrincipalMoments (1 / 10 ^ 6) m) \<and>
         (\<not> Vector3_Equal (Ixyxzyz m) Vector3_Zero (1 / 10 ^ 6 * Vector3_Max (Ixxyyzz m)) \<longrightarrow>
            vx (PrincipalMoments (1 / 10 ^ 6) m) \<le> vy (PrincipalMoments (1 / 10 ^ 6) m) \<and>
            vy (PrincipalMoments (1 / 10 ^ 6) m) \<le> vz (PrincipalMoments (1 / 10 ^ 6) m))"
proof -
  have "ValidMoments (PrincipalMoments (1 / 10 ^ 6) m)"
    using assms by (simp add: IsValid_def)
  then have pos: "0 < vx (PrincipalMoments (1 / 10 ^ 6) m) \<and>
         0 < vy (PrincipalMoments (1 / 10 ^ 6) m) \<and>
         0 < vz (PrincipalMoments (1 / 10 ^ 6) m) \<and>
         vz (PrincipalMoments (1 / 10 ^ 6) m)
           < vx (PrincipalMoments (1 / 10 ^ 6) m) + vy (PrincipalMoments (1 / 10 ^ 6) m) \<and>
         vx (PrincipalMoments (1 / 10 ^ 6) m)
           < vy (PrincipalMoments (1 / 10 ^ 6) m) + vz (PrincipalMoments (1 / 10 ^ 6) m) \<and>
         vy (PrincipalMoments (1 / 10 ^ 6) m)
           < vz (PrincipalMoments (1 / 10 ^ 6) m) + vx (PrincipalMoments (1 / 10 ^ 6) m)"
    by (simp add: ValidMoments_def Vector3_at_def)
  have "vx (PrincipalMoments (1 / 10 ^ 6) m) \<le> vy (PrincipalMoments (1 / 10 ^ 6) m) \<and>
        vy (PrincipalMoments (1 / 10 ^ 6) m) \<le> vz (PrincipalMoments (1 / 10 ^ 6) m)"
    if "\<not> Vector3_Equal (Ixyxzyz m) Vector3_Zero (1 / 10 ^ 6 * Vector3_Max (Ixxyyzz m))"
    unfolding PrincipalMoments_cubic_aux [OF that] by (rule cubic_moments_ascending)
  with pos show ?thesis by blast
qed

text \<open>
  A valid state off the diagonal path: diagonal \<open>(5, 5, 5)\<close>, off-diagonal
  \<open>(1, 1, 1)\<close>, principal moments \<open>(4, 4, 7)\<close>.
\<close>

theorem valid_moments_positive_triangle_witness:
  "IsValid \<lparr>mass = 1, Ixxyyzz = Vector3 5 5 5, Ixyxzyz = Vector3 1 1 1\<rparr> \<and>
   \<not> Vector3_Equal (Vector3 1 1 1) Vector3_Zero (1 / 10 ^ 6 * Vector3_Max (Vector3 5 5 5)) \<and>
   PrincipalMoments (1 / 10 ^ 6)
     \<lparr>mass = 1, Ixxyyzz = Vector3 5 5 5, Ixyxzyz = Vector3 1 1 1\<rparr> = Vector3 4 4 7 \<and>
   0 < vx (PrincipalMoments (1 / 10 ^ 6)
     \<lparr>mass = 1, Ixxyyzz = Vector3 5 5 5, Ixyxzyz = Vector3 1 1 1\<rparr>) \<and>
   vx (PrincipalMoments (1 / 10 ^ 6)
     \<lparr>mass = 1, Ixxyyzz = Vector3 5 5 5, Ixyxzyz = Vector3 1 1 1\<rparr>)
   \<le> vy (PrincipalMoments (1 / 10 ^ 6)
     \<lparr>mass = 1, Ixxyyzz = Vector3 5 5 5, Ixyxzyz = Vector3 1 1 1\<rparr>)"
proof -
  let ?m = "\<lparr>mass = 1, Ixxyyzz = Vector3 5 5 5, Ixyxzyz = Vector3 1 1 1\<rparr>"
  have valid: "IsValid ?m"
    unfolding IsValid_def PrincipalMoments_555
    by (simp add: IsPositive_def ValidMoments_def MOI_def IXX_def IYY_def IXY_def Vector3_at_def)
  have nofast:
    "\<not> Vector3_Equal (Vector3 1 1 1) Vector3_Zero (1 / 10 ^ 6 * Vector3_Max (Vector3 5 5 5))"
    by (simp add: Vector3_Equal_def Vector3_Zero_def equal_def Vector3_Max_def)
  show ?thesis
    using valid_moments_positive_triangle [OF valid] valid nofast PrincipalMoments_555
    by simp
qed

text \<open>
  Claim C3. When every off-diagonal moment is within \<open>scaledTol = tol * max(diagonal)\<close>
  of zero, \<^verbatim>\<open>PrincipalMoments(tol)\<close> returns the stored diagonal vector as it is, in
  its stored component order.
\<close>

theorem PrincipalMoments_diagonal_verbatim:
  assumes "\<bar>IXY m\<bar> \<le> tol0 * max (max (IXX m) (IYY m)) (IZZ m)"
    and "\<bar>IXZ m\<bar> \<le> tol0 * max (max (IXX m) (IYY m)) (IZZ m)"
    and "\<bar>IYZ m\<bar> \<le> tol0 * max (max (IXX m) (IYY m)) (IZZ m)"
  shows "PrincipalMoments tol0 m = Ixxyyzz m"
proof -
  have "Vector3_Equal (Ixyxzyz m) Vector3_Zero (tol0 * Vector3_Max (Ixxyyzz m))"
    using assms
    by (simp add: Vector3_Equal_def Vector3_Zero_def equal_def Vector3_Max_def
        IXX_def IYY_def IZZ_def IXY_def IXZ_def IYZ_def Vector3_at_def)
  then show ?thesis
    by (simp add: PrincipalMoments_def)
qed

text \<open>
  The diagonal \<open>(3, 1, 2)\<close> with zero off-diagonal moments comes back in that order,
  not sorted.
\<close>

theorem PrincipalMoments_diagonal_verbatim_witness:
  "PrincipalMoments (1 / 10 ^ 6) \<lparr>mass = 1, Ixxyyzz = Vector3 3 1 2, Ixyxzyz = Vector3 0 0 0\<rparr>
     = Vector3 3 1 2"
  using PrincipalMoments_diagonal_verbatim
    [of "\<lparr>mass = 1, Ixxyyzz = Vector3 3 1 2, Ixyxzyz = Vector3 0 0 0\<rparr>" "1 / 10 ^ 6"]
  by (simp add: IXX_def IYY_def IZZ_def IXY_def IXZ_def IYZ_def Vector3_at_def)

text \<open>
  Claim C4, as stated, takes \<open>d\<close> to be the determinant. For diagonal \<open>(2, 2, 2)\<close> and
  off-diagonal \<open>(1, 1, 1)\<close> (trace 6, minors 9, determinant 4) the code returns the
  eigenvalues \<open>(1, 1, 4)\<close>, while the formula with \<open>d = 4\<close> gives \<open>(0, 3, 3)\<close>.
\<close>

theorem PrincipalMoments_spec_counterexample:
  "\<not> Vector3_Equal (Vector3 1 1 1) Vector3_Zero (1 / 10 ^ 6 * Vector3_Max (Vector3 2 2 2)) \<and>
   PrincipalMoments (1 / 10 ^ 6)
     \<lparr>mass = 1, Ixxyyzz = Vector3 2 2 2, Ixyxzyz = Vector3 1 1 1\<rparr> = Vector3 1 1 4 \<and>
   PrincipalMoments_spec (1 / 10 ^ 6)
     \<lparr>mass = 1, Ixxyyzz = Vector3 2 2 2, Ixyxzyz = Vector3 1 1 1\<rparr> = Vector3 0 3 3 \<and>
   PrincipalMoments (1 / 10 ^ 6)
     \<lparr>mass = 1, Ixxyyzz = Vector3 2 2 2, Ixyxzyz = Vector3 1 1 1\<rparr>
   \<noteq> PrincipalMoments_spec (1 / 10 ^ 6)
     \<lparr>mass = 1, Ixxyyzz = Vector3 2 2 2, Ixyxzyz = Vector3 1 1 1\<rparr>"
proof -
  let ?m = "\<lparr>mass = 1, Ixxyyzz = Vector3 2 2 2, Ixyxzyz = Vector3 1 1 1\<rparr>"
  have nofast:
    "\<not> Vector3_Equal (Vector3 1 1 1) Vector3_Zero (1 / 10 ^ 6 * Vector3_Max (Vector3 2 2 2))"
    by (simp add: Vector3_Equal_def Vector3_Zero_def equal_def Vector3_Max_def)
  have b: "trace_MOI ?m = 6"
    by (simp add: trace_MOI_def IXX_def IYY_def IZZ_def Vector3_at_def)
  have c: "minors_MOI ?m = 9"
    by (simp add: minors_MOI_def IXX_def IYY_def IZZ_def IXY_def IXZ_def IYZ_def Vector3_at_def)
  have d: "Determinant (MOI ?m) = 4"
    by (simp add: MOI_def Vector3_at_def)
  have "cubic_moments 6 9 4 (1 / 10 ^ 6 * 2) = Vector3 (6 / 3 - 2) (6 / 3 + 1) (6 / 3 + 1)"
    by (rule cubic_moments_p9_q_low [where q = "- 162"]) (simp_all add: power2_eq_square)
  then have spec: "PrincipalMoments_spec (1 / 10 ^ 6) ?m = Vector3 0 3 3"
    using nofast by (simp add: PrincipalMoments_spec_def b c d Vector3_Max_def)
  show ?thesis
    using nofast spec PrincipalMoments_222 by simp
qed

text \<open>
  Claim C4, amended. On the non-diagonal path of \<^verbatim>\<open>PrincipalMoments(tol)\<close>, with
  \<open>b\<close> the trace, \<open>c\<close> the sum of the 2x2 principal minors and \<open>d\<close> the
  \<^emph>\<open>negated\<close> determinant
  \<open>Ixx Iyz\<^sup>2 + Iyy Ixz\<^sup>2 + Izz Ixy\<^sup>2 - Ixx Iyy Izz - 2 Ixy Ixz Iyz\<close>, the result is
  \<open>(b/3, b/3, b/3)\<close> when \<open>p = b\<^sup>2 - 3c < scaledTol\<^sup>2\<close>, and otherwise the three roots
  for \<open>k = 0, 1, -1\<close> with \<open>delta\<close> the arc cosine of the clamped \<open>q / (2 p^1.5)\<close>,
  \<open>q = 2b\<^sup>3 - 9bc - 27d\<close>; the result is in ascending order.
\<close>

theorem PrincipalMoments_non_diagonal:
  assumes "\<not> Vector3_Equal (Ixyxzyz m) Vector3_Zero (tol0 * Vector3_Max (Ixxyyzz m))"
  shows "PrincipalMoments tol0 m =
           cubic_moments (trace_MOI m) (minors_MOI m) (- Determinant (MOI m))
             (tol0 * Vector3_Max (Ixxyyzz m)) \<and>
         - Determinant (MOI m) =
           IXX m * (IYZ m)\<^sup>2 + IYY m * (IXZ m)\<^sup>2 + IZZ m * (IXY m)\<^sup>2
           - IXX m * IYY m * IZZ m - 2 * IXY m * IXZ m * IYZ m \<and>
         vx (PrincipalMoments tol0 m) \<le> vy (PrincipalMoments tol0 m) \<and>
         vy (PrincipalMoments tol0 m) \<le> vz (PrincipalMoments tol0 m)"
proof -
  have "- Determinant (MOI m) =
           IXX m * (IYZ m)\<^sup>2 + IYY m * (IXZ m)\<^sup>2 + IZZ m * (IXY m)\<^sup>2
           - IXX m * IYY m * IZZ m - 2 * IXY m * IXZ m * IYZ m"
    by (simp add: MOI_def IXX_def IYY_def IZZ_def IXY_def IXZ_def IYZ_def Vector3_at_def
        power2_eq_square algebra_simps)
  then show ?thesis
    using PrincipalMoments_cubic_aux [OF assms] cubic_moments_ascending by simp
qed

text \<open>
  Diagonal \<open>(5, 5, 5)\<close> with off-diagonal \<open>(1, 1, 1)\<close>: trace 15, minors 72,
  determinant 112.
\<close>

theorem PrincipalMoments_non_diagonal_witness:
  "\<not> Vector3_Equal (Vector3 1 1 1) Vector3_Zero (1 / 10 ^ 6 * Vector3_Max (Vector3 5 5 5)) \<and>
   cubic_moments 15 72 (- 112) (1 / 10 ^ 6 * 5) = Vector3 4 4 7 \<and>
   PrincipalMoments (1 / 10 ^ 6) \<lparr>mass = 1, Ixxyyzz = Vector3 5 5 5, Ixyxzyz = Vector3 1 1 1\<rparr>
     = cubic_moments 15 72 (- 112) (1 / 10 ^ 6 * 5)"
proof -
  let ?m = "\<lparr>mass = 1, Ixxyyzz = Vector3 5 5 5, Ixyxzyz = Vector3 1 1 1\<rparr>"
  have nofast:
    "\<not> Vector3_Equal (Ixyxzyz ?m) Vector3_Zero (1 / 10 ^ 6 * Vector3_Max (Ixxyyzz ?m))"
    by (simp add: Vector3_Equal_def Vector3_Zero_def equal_def Vector3_Max_def)
  have b: "trace_MOI ?m = 15"
    by (simp add: trace_MOI_def IXX_def IYY_def IZZ_def Vector3_at_def)
  have c: "minors_MOI ?m = 72"
    by (simp add: minors_MOI_def IXX_def IYY_def IZZ_def IXY_def IXZ_def IYZ_def Vector3_at_def)
  have d: "Determinant (MOI ?m) = 112"
    by (simp add: MOI_def Vector3_at_def)
  have "cubic_moments 15 72 (- 112) (1 / 10 ^ 6 * 5)
          = Vector3 (15 / 3 - 1) (15 / 3 - 1) (15 / 3 + 2)"
    by (rule cubic_moments_p9_q54) (simp_all add: power2_eq_square)
  then have v: "cubic_moments 15 72 (- 112) (1 / 10 ^ 6 * 5) = Vector3 4 4 7" by simp
  show ?thesis
    using PrincipalMoments_non_diagonal [OF nofast] nofast v
    by (simp add: b c d Vector3_Max_def)
qed

text \<open>
  Claim C5. \<^verbatim>\<open>IsPositive()\<close> holds exactly when the mass and the three leading
  principal minors of the moment of inertia matrix are positive (the last being the
  determinant of \<^verbatim>\<open>MOI()\<close>, spelled out in the six stored scalars), and
  \<^verbatim>\<open>IsValid()\<close> holds exactly when \<^verbatim>\<open>IsPositive()\<close> does and the principal
  moments at the default tolerance pass \<^verbatim>\<open>ValidMoments\<close>.
\<close>

theorem IsPositive_IsValid_iff:
  "(IsPositive m \<longleftrightarrow>
      mass m > 0 \<and> IXX m > 0 \<and> IXX m * IYY m - (IXY m)\<^sup>2 > 0 \<and> Determinant (MOI m) > 0) \<and>
   Determinant (MOI m) =
      IXX m * IYY m * IZZ m + 2 * IXY m * IXZ m * IYZ m
      - IXX m * (IYZ m)\<^sup>2 - IYY m * (IXZ m)\<^sup>2 - IZZ m * (IXY m)\<^sup>2 \<and>
   (IsValid m \<longleftrightarrow> IsPositive m \<and> ValidMoments (PrincipalMoments (1 / 10 ^ 6) m))"
  by (simp add: IsPositive_def IsValid_def MOI_def IXX_def IYY_def IZZ_def IXY_def IXZ_def
      IYZ_def Vector3_at_def power2_eq_square algebra_simps)

text \<open>
  Claim C6. Every setter stores the value it is given, whatever it is, changes nothing
  but its target, and returns \<^verbatim>\<open>IsValid()\<close> of the state after the store.
\<close>

theorem setters_store_and_report:
  "Mass_set v m = (IsValid (m\<lparr>mass := v\<rparr>), m\<lparr>mass := v\<rparr>) \<and>
   IXX_set v m = (IsValid (m\<lparr>Ixxyyzz := Vector3 v (IYY m) (IZZ m)\<rparr>),
                  m\<lparr>Ixxyyzz := Vector3 v (IYY m) (IZZ m)\<rparr>) \<and>
   IYY_set v m = (IsValid (m\<lparr>Ixxyyzz := Vector3 (IXX m) v (IZZ m)\<rparr>),
                  m\<lparr>Ixxyyzz := Vector3 (IXX m) v (IZZ m)\<rparr>) \<and>
   IZZ_set v m = (IsValid (m\<lparr>Ixxyyzz := Vector3 (IXX m) (IYY m) v\<rparr>),
                  m\<lparr>Ixxyyzz := Vector3 (IXX m) (IYY m) v\<rparr>) \<and>
   IXY_set v m = (IsValid (m\<lparr>Ixyxzyz := Vector3 v (IXZ m) (IYZ m)\<rparr>),
                  m\<lparr>Ixyxzyz := Vector3 v (IXZ m) (IYZ m)\<rparr>) \<and>
   IXZ_set v m = (IsValid (m\<lparr>Ixyxzyz := Vector3 (IXY m) v (IYZ m)\<rparr>),
                  m\<lparr>Ixyxzyz := Vector3 (IXY m) v (IYZ m)\<rparr>) \<and>
   IYZ_set v m = (IsValid (m\<lparr>Ixyxzyz := Vector3 (IXY m) (IXZ m) v\<rparr>),
                  m\<lparr>Ixyxzyz := Vector3 (IXY m) (IXZ m) v\<rparr>) \<and>
   DiagonalMoments_set d m = (IsValid (m\<lparr>Ixxyyzz := d\<rparr>), m\<lparr>Ixxyyzz := d\<rparr>) \<and>
   OffDiagonalMoments_set d m = (IsValid (m\<lparr>Ixyxzyz := d\<rparr>), m\<lparr>Ixyxzyz := d\<rparr>) \<and>
   InertiaMatrix ixx iyy izz ixy ixz iyz m =
     (IsValid (m\<lparr>Ixxyyzz := Vector3 ixx iyy izz, Ixyxzyz := Vector3 ixy ixz iyz\<rparr>),
      m\<lparr>Ixxyyzz := Vector3 ixx iyy izz, Ixyxzyz := Vector3 ixy ixz iyz\<rparr>) \<and>
   MOI_set (Matrix3 a00 a01 a02 a10 a11 a12 a20 a21 a22) m =
     (IsValid (m\<lparr>Ixxyyzz := Vector3 a00 a11 a22,
                  Ixyxzyz := Vector3 ((a01 + a10) / 2) ((a02 + a20) / 2) ((a12 + a21) / 2)\<rparr>),
      m\<lparr>Ixxyyzz := Vector3 a00 a11 a22,
        Ixyxzyz := Vector3 ((a01 + a10) / 2) ((a02 + a20) / 2) ((a12 + a21) / 2)\<rparr>)"
  by (simp add: Mass_set_def IXX_set_def IYY_set_def IZZ_set_def IXY_set_def IXZ_set_def
      IYZ_set_def DiagonalMoments_set_def OffDiagonalMoments_set_def InertiaMatrix_def
      MOI_set_def IXX_def IYY_def IZZ_def IXY_def IXZ_def IYZ_def Vector3_at_def Let_def)

text \<open>
  Claim C7. Storing the matrix \<^verbatim>\<open>MOI()\<close> of a state \<open>s\<close> into any state \<open>t\<close>
  with \<^verbatim>\<open>MOI(M)\<close> (into \<open>s\<close> itself, or into a newly constructed state) gives \<open>t\<close>
  the six moments of \<open>s\<close>: over the reals the averaging of the off-diagonal pairs is
  exact, so the round trip through the matrix form returns the original components.
\<close>

theorem MOI_round_trip:
  "snd (MOI_set (MOI s) t) = t\<lparr>Ixxyyzz := Ixxyyzz s, Ixyxzyz := Ixyxzyz s\<rparr> \<and>
   snd (MOI_set (MOI s) s) = s \<and>
   snd (MOI_set (MOI s) MassMatrix3_default)
     = \<lparr>mass = 0, Ixxyyzz = Ixxyyzz s, Ixyxzyz = Ixyxzyz s\<rparr> \<and>
   MOI (snd (MOI_set (MOI s) t)) = MOI s"
  by (simp add: MOI_set_def MOI_def Vector3_at_def Let_def MassMatrix3_default_def)

text \<open>
  Claim C9. In the branch of \<^verbatim>\<open>PrincipalAxesOffset\<close> without repeated moments, when the
  auxiliary vectors \<open>f1\<close> and \<open>f2\<close> both have squared length below \<open>tol\<^sup>2\<close>, the
  function returns the quaternion \<open>(0, 0, 0, 0)\<close>, whose norm is not 1. In every other
  branch the result is built from angles: the identity when the moments agree with
  the stored diagonal, the inverse of the quaternion of \<open>(-phi1, -phi2, 0)\<close> when the
  two smallest moments coincide, the same composed with a pitch of \<open>pi/2\<close> when the
  two largest coincide, and the inverse of the quaternion of \<open>(-phi1, -phi2, -phi3)\<close>
  otherwise. This holds for every implementation \<open>ops\<close> of the quaternion operations.
\<close>

theorem PrincipalAxesOffset_results:
  "let tol = tol0 * Vector3_Max (Ixxyyzz m);
       moments = PrincipalMoments (1 / 10 ^ 6) m;
       f1 = Vector2 (IXY m) (- IXZ m);
       f2 = Vector2 (IYY m - IZZ m) (- 2 * IYZ m);
       aligned = Vector3_Equal moments (Ixxyyzz m) tol;
       repeatedLow = equal (vx moments - vy moments) 0 tol;
       repeatedHigh = equal (vy moments - vz moments) 0 tol;
       bothSmall = (Vector2_SquaredLength f1 < tol\<^sup>2 \<and> Vector2_SquaredLength f2 < tol\<^sup>2)
   in
     (\<not> aligned \<and> \<not> repeatedLow \<and> \<not> repeatedHigh \<and> bothSmall \<longrightarrow>
        PrincipalAxesOffset ops tol0 m = Quaternion 0 0 0 0) \<and>
     Quaternion_SquaredNorm (Quaternion 0 0 0 0) \<noteq> 1 \<and>
     (aligned \<longrightarrow> PrincipalAxesOffset ops tol0 m = Quaternion_Identity) \<and>
     (\<not> aligned \<and> repeatedLow \<longrightarrow>
        (\<exists>phi1 phi2. PrincipalAxesOffset ops tol0 m =
           Inverse ops (Euler ops (- phi1) (- phi2) 0))) \<and>
     (\<not> aligned \<and> \<not> repeatedLow \<and> repeatedHigh \<longrightarrow>
        (\<exists>phi1 phi2. PrincipalAxesOffset ops tol0 m =
           Multiply ops (Inverse ops (Euler ops (- phi1) (- phi2) 0))
             (Euler ops 0 (pi / 2) 0))) \<and>
     (\<not> aligned \<and> \<not> repeatedLow \<and> \<not> repeatedHigh \<and> \<not> bothSmall \<longrightarrow>
        (\<exists>phi1 phi2 phi3. PrincipalAxesOffset ops tol0 m =
           Inverse ops (Euler ops (- phi1) (- phi2) (- phi3))))"
proof -
  define tol where "tol = tol0 * Vector3_Max (Ixxyyzz m)"
  define moments where "moments = PrincipalMoments (1 / 10 ^ 6) m"
  define f1 where "f1 = Vector2 (IXY m) (- IXZ m)"
  define f2 where "f2 = Vector2 (IYY m - IZZ m) (- 2 * IYZ m)"
  have br: "PrincipalAxesOffset ops tol0 m =
     (if Vector3_Equal moments (Ixxyyzz m) tol then Quaternion_Identity
      else if equal (vx moments - vy moments) 0 tol
        then PrincipalAxesOffset_repeated ops tol moments 2 f1 f2 m
      else if equal (vy moments - vz moments) 0 tol
        then PrincipalAxesOffset_repeated ops tol moments 0 f1 f2 m
      else PrincipalAxesOffset_general ops tol moments f1 f2 m)"
    unfolding tol_def moments_def f1_def f2_def
    using PrincipalAxesOffset_branches_aux [of ops tol0 m] by (simp only: Let_def)
  have low: "\<exists>phi1 phi2. PrincipalAxesOffset_repeated ops tol moments 2 f1 f2 m =
      Inverse ops (Euler ops (- phi1) (- phi2) 0)"
    using PrincipalAxesOffset_repeated_form [of ops tol moments 2 f1 f2 m] by simp
  have high: "\<exists>phi1 phi2. PrincipalAxesOffset_repeated ops tol moments 0 f1 f2 m =
      Multiply ops (Inverse ops (Euler ops (- phi1) (- phi2) 0)) (Euler ops 0 (pi / 2) 0)"
    using PrincipalAxesOffset_repeated_form [of ops tol moments 0 f1 f2 m] by simp
  have gen: "\<exists>phi1 phi2 phi3. PrincipalAxesOffset_general ops tol moments f1 f2 m =
      Inverse ops (Euler ops (- phi1) (- phi2) (- phi3))"
    if "\<not> (Vector2_SquaredLength f1 < tol\<^sup>2 \<and> Vector2_SquaredLength f2 < tol\<^sup>2)"
    using PrincipalAxesOffset_general_form [OF that] .
  have sent: "PrincipalAxesOffset_general ops tol moments f1 f2 m = Quaternion 0 0 0 0"
    if "Vector2_SquaredLength f1 < tol\<^sup>2 \<and> Vector2_SquaredLength f2 < tol\<^sup>2"
    using that PrincipalAxesOffset_general_sentinel by simp
  have norm0: "Quaternion_SquaredNorm (Quaternion 0 0 0 0) \<noteq> 1"
    by (simp add: Quaternion_SquaredNorm_def)
  show ?thesis
    unfolding Let_def tol_def [symmetric] moments_def [symmetric] f1_def [symmetric]
      f2_def [symmetric]
    using low high gen sent norm0 by (simp add: br)
qed

text \<open>
  One state in each branch. With the negative diagonal \<open>(-1, -1, -1)\<close> the scaled
  tolerance is negative, no tolerance test succeeds, \<open>f1\<close> and \<open>f2\<close> are zero, and
  the sentinel is returned.
\<close>

theorem PrincipalAxesOffset_results_witness:
  "PrincipalAxesOffset Quaternion_ops (1 / 10 ^ 6)
     \<lparr>mass = 1, Ixxyyzz = Vector3 (- 1) (- 1) (- 1), Ixyxzyz = Vector3 0 0 0\<rparr>
     = Quaternion 0 0 0 0 \<and>
   PrincipalAxesOffset Quaternion_ops (1 / 10 ^ 6)
     \<lparr>mass = 1, Ixxyyzz = Vector3 1 1 1, Ixyxzyz = Vector3 0 0 0\<rparr>
     = Quaternion_Identity \<and>
   (\<exists>phi1 phi2. PrincipalAxesOffset Quaternion_ops (1 / 10 ^ 6)
      \<lparr>mass = 1, Ixxyyzz = Vector3 2 2 2, Ixyxzyz = Vector3 1 1 1\<rparr>
      = Inverse Quaternion_ops (Euler Quaternion_ops (- phi1) (- phi2) 0)) \<and>
   (\<exists>phi1 phi2. PrincipalAxesOffset Quaternion_ops (1 / 10 ^ 6)
      \<lparr>mass = 1, Ixxyyzz = Vector3 3 3 3, Ixyxzyz = Vector3 (- 1) (- 1) (- 1)\<rparr>
      = Multiply Quaternion_ops
          (Inverse Quaternion_ops (Euler Quaternion_ops (- phi1) (- phi2) 0))
          (Euler Quaternion_ops 0 (pi / 2) 0)) \<and>
   (\<exists>phi1 phi2 phi3. PrincipalAxesOffset Quaternion_ops (1 / 10 ^ 6)
      \<lparr>mass = 1, Ixxyyzz = Vector3 2 2 5, Ixyxzyz = Vector3 1 0 0\<rparr>
      = Inverse Quaternion_ops (Euler Quaternion_ops (- phi1) (- phi2) (- phi3)))"
proof -
  have diag: "PrincipalMoments (1 / 10 ^ 6)
      \<lparr>mass = 1, Ixxyyzz = Vector3 1 1 1, Ixyxzyz = Vector3 0 0 0\<rparr> = Vector3 1 1 1"
    by (simp add: PrincipalMoments_def Vector3_Equal_def Vector3_Zero_def equal_def
        Vector3_Max_def)
  have 1: "PrincipalAxesOffset Quaternion_ops (1 / 10 ^ 6)
     \<lparr>mass = 1, Ixxyyzz = Vector3 (- 1) (- 1) (- 1), Ixyxzyz = Vector3 0 0 0\<rparr>
     = Quaternion 0 0 0 0"
    using PrincipalAxesOffset_results [of "1 / 10 ^ 6"
        "\<lparr>mass = 1, Ixxyyzz = Vector3 (- 1) (- 1) (- 1), Ixyxzyz = Vector3 0 0 0\<rparr>"
        Quaternion_ops]
      PrincipalMoments_neg_ones
    by (simp add: Let_def Vector3_Max_def Vector3_Equal_def equal_def IXY_def IXZ_def IYY_def
        IZZ_def IYZ_def Vector3_at_def Vector2_SquaredLength_def)
  have 2: "PrincipalAxesOffset Quaternion_ops (1 / 10 ^ 6)
     \<lparr>mass = 1, Ixxyyzz = Vector3 1 1 1, Ixyxzyz = Vector3 0 0 0\<rparr>
     = Quaternion_Identity"
    using PrincipalAxesOffset_results [of "1 / 10 ^ 6"
        "\<lparr>mass = 1, Ixxyyzz = Vector3 1 1 1, Ixyxzyz = Vector3 0 0 0\<rparr>" Quaternion_ops]
      diag
    by (simp add: Let_def Vector3_Max_def Vector3_Equal_def equal_def)
  have 3: "\<exists>phi1 phi2. PrincipalAxesOffset Quaternion_ops (1 / 10 ^ 6)
      \<lparr>mass = 1, Ixxyyzz = Vector3 2 2 2, Ixyxzyz = Vector3 1 1 1\<rparr>
      = Inverse Quaternion_ops (Euler Quaternion_ops (- phi1) (- phi2) 0)"
    using PrincipalAxesOffset_results [of "1 / 10 ^ 6"
        "\<lparr>mass = 1, Ixxyyzz = Vector3 2 2 2, Ixyxzyz = Vector3 1 1 1\<rparr>" Quaternion_ops]
      PrincipalMoments_222
    by (simp add: Let_def Vector3_Max_def Vector3_Equal_def equal_def)
  have 4: "\<exists>phi1 phi2. PrincipalAxesOffset Quaternion_ops (1 / 10 ^ 6)
      \<lparr>mass = 1, Ixxyyzz = Vector3 3 3 3, Ixyxzyz = Vector3 (- 1) (- 1) (- 1)\<rparr>
      = Multiply Quaternion_ops
          (Inverse Quaternion_ops (Euler Quaternion_ops (- phi1) (- phi2) 0))
          (Euler Quaternion_ops 0 (pi / 2) 0)"
    using PrincipalAxesOffset_results [of "1 / 10 ^ 6"
        "\<lparr>mass = 1, Ixxyyzz = Vector3 3 3 3, Ixyxzyz = Vector3 (- 1) (- 1) (- 1)\<rparr>"
        Quaternion_ops]
      PrincipalMoments_333
    by (simp add: Let_def Vector3_Max_def Vector3_Equal_def equal_def)
  have 5: "\<exists>phi1 phi2 phi3. PrincipalAxesOffset Quaternion_ops (1 / 10 ^ 6)
      \<lparr>mass = 1, Ixxyyzz = Vector3 2 2 5, Ixyxzyz = Vector3 1 0 0\<rparr>
      = Inverse Quaternion_ops (Euler Quaternion_ops (- phi1) (- phi2) (- phi3))"
    using PrincipalAxesOffset_results [of "1 / 10 ^ 6"
        "\<lparr>mass = 1, Ixxyyzz = Vector3 2 2 5, Ixyxzyz = Vector3 1 0 0\<rparr>" Quaternion_ops]
      PrincipalMoments_225
    by (simp add: Let_def Vector3_Max_def Vector3_Equal_def equal_def IXY_def IXZ_def IYY_def
        IZZ_def IYZ_def Vector3_at_def Vector2_SquaredLength_def power2_eq_square)
  from 1 2 3 4 5 show ?thesis by blast
qed

text \<open>
  Claim C10. For every tolerance argument, \<^verbatim>\<open>PrincipalAxesOffset(_tol)\<close> works on the
  moments \<^verbatim>\<open>PrincipalMoments()\<close> of the default tolerance \<open>1e-6\<close>: the argument enters
  only through the scaled tolerance of the alignment test, the two repeated-moment
  tests and the two small-length tests. Hence two tolerance arguments that decide these
  five tests alike give the same result.
\<close>

theorem PrincipalAxesOffset_default_moments:
  "PrincipalAxesOffset ops tol0 m =
     (let tol = tol0 * Vector3_Max (Ixxyyzz m);
          moments = PrincipalMoments (1 / 10 ^ 6) m;
          f1 = Vector2 (IXY m) (- IXZ m);
          f2 = Vector2 (IYY m - IZZ m) (- 2 * IYZ m)
      in if Vector3_Equal moments (Ixxyyzz m) tol then Quaternion_Identity
         else if equal (vx moments - vy moments) 0 tol
           then PrincipalAxesOffset_repeated ops tol moments 2 f1 f2 m
         else if equal (vy moments - vz moments) 0 tol
           then PrincipalAxesOffset_repeated ops tol moments 0 f1 f2 m
         else PrincipalAxesOffset_general ops tol moments f1 f2 m) \<and>
   (let moments = PrincipalMoments (1 / 10 ^ 6) m;
        f1 = Vector2 (IXY m) (- IXZ m);
        f2 = Vector2 (IYY m - IZZ m) (- 2 * IYZ m);
        tolA = tolA0 * Vector3_Max (Ixxyyzz m);
        tolB = tolB0 * Vector3_Max (Ixxyyzz m)
    in
      Vector3_Equal moments (Ixxyyzz m) tolA = Vector3_Equal moments (Ixxyyzz m) tolB \<and>
      equal (vx moments - vy moments) 0 tolA = equal (vx moments - vy moments) 0 tolB \<and>
      equal (vy moments - vz moments) 0 tolA = equal (vy moments - vz moments) 0 tolB \<and>
      (Vector2_SquaredLength f1 < tolA\<^sup>2) = (Vector2_SquaredLength f1 < tolB\<^sup>2) \<and>
      (Vector2_SquaredLength f2 < tolA\<^sup>2) = (Vector2_SquaredLength f2 < tolB\<^sup>2) \<longrightarrow>
      PrincipalAxesOffset ops tolA0 m = PrincipalAxesOffset ops tolB0 m)"
proof -
  define moments where "moments = PrincipalMoments (1 / 10 ^ 6) m"
  define f1 where "f1 = Vector2 (IXY m) (- IXZ m)"
  define f2 where "f2 = Vector2 (IYY m - IZZ m) (- 2 * IYZ m)"
  define tolA where "tolA = tolA0 * Vector3_Max (Ixxyyzz m)"
  define tolB where "tolB = tolB0 * Vector3_Max (Ixxyyzz m)"
  have br: "PrincipalAxesOffset ops t0 m =
     (if Vector3_Equal moments (Ixxyyzz m) (t0 * Vector3_Max (Ixxyyzz m))
        then Quaternion_Identity
      else if equal (vx moments - vy moments) 0 (t0 * Vector3_Max (Ixxyyzz m))
        then PrincipalAxesOffset_repeated ops (t0 * Vector3_Max (Ixxyyzz m)) moments 2 f1 f2 m
      else if equal (vy moments - vz moments) 0 (t0 * Vector3_Max (Ixxyyzz m))
        then PrincipalAxesOffset_repeated ops (t0 * Vector3_Max (Ixxyyzz m)) moments 0 f1 f2 m
      else PrincipalAxesOffset_general ops (t0 * Vector3_Max (Ixxyyzz m)) moments f1 f2 m)"
    for t0
    unfolding moments_def f1_def f2_def
    using PrincipalAxesOffset_branches_aux [of ops t0 m] by (simp only: Let_def)
  have inv: "PrincipalAxesOffset ops tolA0 m = PrincipalAxesOffset ops tolB0 m"
    if a: "Vector3_Equal moments (Ixxyyzz m) tolA = Vector3_Equal moments (Ixxyyzz m) tolB"
      and b: "equal (vx moments - vy moments) 0 tolA = equal (vx moments - vy moments) 0 tolB"
      and c: "equal (vy moments - vz moments) 0 tolA = equal (vy moments - vz moments) 0 tolB"
      and d: "(Vector2_SquaredLength f1 < tolA\<^sup>2) = (Vector2_SquaredLength f1 < tolB\<^sup>2)"
      and e: "(Vector2_SquaredLength f2 < tolA\<^sup>2) = (Vector2_SquaredLength f2 < tolB\<^sup>2)"
  proof -
    have r: "PrincipalAxesOffset_repeated ops tolA moments u f1 f2 m =
             PrincipalAxesOffset_repeated ops tolB moments u f1 f2 m" for u
      by (rule PrincipalAxesOffset_repeated_tol [OF d])
    have g: "PrincipalAxesOffset_general ops tolA moments f1 f2 m =
             PrincipalAxesOffset_general ops tolB moments f1 f2 m"
      by (rule PrincipalAxesOffset_general_tol [OF d e])
    show ?thesis
      unfolding br [of tolA0] br [of tolB0] tolA_def [symmetric] tolB_def [symmetric]
      by (simp only: a b c r g)
  qed
  show ?thesis
    unfolding Let_def
    using br [of tol0] inv
    unfolding moments_def f1_def f2_def tolA_def tolB_def
    by blast
qed

text \<open>
  For diagonal \<open>(2, 2, 2)\<close> and off-diagonal \<open>(1, 1, 1)\<close> the tolerances \<open>1/2\<close> and
  \<open>1e-6\<close> decide the five tests alike, so the offsets agree, although
  \<^verbatim>\<open>PrincipalMoments(1/2)\<close> is the stored diagonal \<open>(2, 2, 2)\<close> and
  \<^verbatim>\<open>PrincipalMoments()\<close> is \<open>(1, 1, 4)\<close>.
\<close>

theorem PrincipalAxesOffset_default_moments_witness:
  "PrincipalMoments (1 / 2) \<lparr>mass = 1, Ixxyyzz = Vector3 2 2 2, Ixyxzyz = Vector3 1 1 1\<rparr>
     = Vector3 2 2 2 \<and>
   PrincipalMoments (1 / 10 ^ 6) \<lparr>mass = 1, Ixxyyzz = Vector3 2 2 2, Ixyxzyz = Vector3 1 1 1\<rparr>
     = Vector3 1 1 4 \<and>
   PrincipalAxesOffset Quaternion_ops (1 / 2)
     \<lparr>mass = 1, Ixxyyzz = Vector3 2 2 2, Ixyxzyz = Vector3 1 1 1\<rparr>
   = PrincipalAxesOffset Quaternion_ops (1 / 10 ^ 6)
     \<lparr>mass = 1, Ixxyyzz = Vector3 2 2 2, Ixyxzyz = Vector3 1 1 1\<rparr>"
proof -
  let ?m = "\<lparr>mass = 1, Ixxyyzz = Vector3 2 2 2, Ixyxzyz = Vector3 1 1 1\<rparr>"
  have half: "PrincipalMoments (1 / 2) ?m = Vector3 2 2 2"
    by (simp add: PrincipalMoments_def Vector3_Equal_def Vector3_Zero_def equal_def
        Vector3_Max_def)
  have "PrincipalAxesOffset Quaternion_ops (1 / 2) ?m
        = PrincipalAxesOffset Quaternion_ops (1 / 10 ^ 6) ?m"
    using PrincipalAxesOffset_default_moments
        [of Quaternion_ops "1 / 2" ?m "1 / 2" "1 / 10 ^ 6", THEN conjunct2]
      PrincipalMoments_222
    by (simp add: Let_def Vector3_Max_def Vector3_Equal_def equal_def IXY_def IXZ_def IYY_def
        IZZ_def IYZ_def Vector3_at_def Vector2_SquaredLength_def power2_eq_square)
  then show ?thesis
    using half PrincipalMoments_222 by simp
qed

end
